theory Spec2Isabelle
  imports Complex_Main "HOL-Library.Char_ord" "HOL-Library.List_Lexorder" "HOL-Library.Multiset"
begin

section \<open>Data model\<close>

text \<open>
  A catalog product as the application holds it (\<^verbatim>\<open>App.tsx\<close>, \<^verbatim>\<open>generateMockProducts\<close>
  and \<^verbatim>\<open>handleSaveProduct\<close>). The field \<^verbatim>\<open>id\<close> is called \<open>pid\<close> here. Prices are currency
  strings (a currency sign and a decimal number). Quantities are JavaScript numbers, and nothing
  in the code keeps them whole: they are rationals here, and \<open>whole\<close> marks the integers.
\<close>

record product =
  pid :: string
  name :: string
  sku :: string
  category :: string
  price :: string
  qty :: rat
  status :: string
  imgId :: string
  date :: string
  description :: "string option"
  customImage :: "string option"

definition whole :: "rat \<Rightarrow> bool" where
  "whole q = (of_int \<lfloor>q\<rfloor> = q)"

text \<open>\<^verbatim>\<open>getStatus\<close> of \<^verbatim>\<open>App.tsx\<close>.\<close>

definition getStatus :: "rat \<Rightarrow> string" where
  "getStatus q =
     (if q = 0 then ''Out of Stock''
      else if q < 40 then ''Low Stock''
      else ''In Stock'')"

text \<open>
  Strings are lists of the code units 0 to 255. On these \<^verbatim>\<open>String.prototype.toLowerCase\<close>
  maps A to Z (65 to 90) and the capitals 192 to 222, the multiplication sign 215 apart, to the
  letter 32 places up, and keeps every other character. \<^verbatim>\<open>trim\<close> removes the space, the
  control characters 9 to 13 and the no-break space from both ends.
\<close>

definition lower_char :: "char \<Rightarrow> char" where
  "lower_char c =
     (let n = (of_char c :: nat)
      in if (65 \<le> n \<and> n \<le> 90) \<or> (192 \<le> n \<and> n \<le> 222 \<and> n \<noteq> 215)
         then char_of (n + 32) else c)"

definition toLowerCase :: "string \<Rightarrow> string" where
  "toLowerCase s = map lower_char s"

definition is_space :: "char \<Rightarrow> bool" where
  "is_space c = (c = CHR '' '' \<or> (of_char c :: nat) \<in> {9, 10, 11, 12, 13, 160})"

definition trim :: "string \<Rightarrow> string" where
  "trim s = rev (dropWhile is_space (rev (dropWhile is_space s)))"

definition is_digit :: "char \<Rightarrow> bool" where
  "is_digit c = (CHR ''0'' \<le> c \<and> c \<le> CHR ''9'')"

text \<open>\<^verbatim>\<open>String.prototype.includes\<close>: the second string occurs contiguously in the first.\<close>

fun starts_with :: "string \<Rightarrow> string \<Rightarrow> bool" where
  "starts_with s [] = True"
| "starts_with [] (c # t) = False"
| "starts_with (d # s) (c # t) = (d = c \<and> starts_with s t)"

fun includes_str :: "string \<Rightarrow> string \<Rightarrow> bool" where
  "includes_str [] t = (t = [])"
| "includes_str (d # s) t = (starts_with (d # s) t \<or> includes_str s t)"

section \<open>Register sale: the cart\<close>

text \<open>
  \<^verbatim>\<open>CartItem\<close> of \<^verbatim>\<open>RegisterSale.tsx\<close>; its fields \<^verbatim>\<open>id, name, price, qty, sku\<close> carry
  the prefix \<open>item_\<close>. The price of a line is the number that \<^verbatim>\<open>parseFloat\<close> returned when
  the line was created.
\<close>

record CartItem =
  item_id :: string
  item_name :: string
  item_price :: rat
  item_qty :: rat
  maxQty :: rat
  item_sku :: string

text \<open>The component state of \<^verbatim>\<open>RegisterSale\<close>.\<close>

record sale_state =
  searchQuery :: string
  cart :: "CartItem list"
  showSuccess :: bool

text \<open>
  \<^verbatim>\<open>parseFloat(product.price.replace(/[^0-9.-]+/g, "")) || 0\<close>. The built-in \<^verbatim>\<open>parseFloat\<close>
  is a parameter: it returns \<open>None\<close> for \<^verbatim>\<open>NaN\<close>.
\<close>

definition priceNum :: "(string \<Rightarrow> rat option) \<Rightarrow> product \<Rightarrow> rat" where
  "priceNum parseFloat product =
     (case parseFloat (filter (\<lambda>c. is_digit c \<or> c = CHR ''.'' \<or> c = CHR ''-'') (price product)) of
        None \<Rightarrow> 0
      | Some v \<Rightarrow> v)"

text \<open>The object literal that \<^verbatim>\<open>addToCart\<close> appends for a product not yet in the cart.\<close>

definition newCartItem :: "(string \<Rightarrow> rat option) \<Rightarrow> product \<Rightarrow> CartItem" where
  "newCartItem parseFloat product =
     \<lparr>item_id = pid product, item_name = name product,
      item_price = priceNum parseFloat product, item_qty = 1,
      maxQty = qty product, item_sku = sku product\<rparr>"

text \<open>\<^verbatim>\<open>addToCart\<close>: the early return leaves the whole state, the search box included.\<close>

definition addToCart :: "(string \<Rightarrow> rat option) \<Rightarrow> product \<Rightarrow> sale_state \<Rightarrow> sale_state" where
  "addToCart parseFloat product st =
     (let existingItem = find (\<lambda>item. item_id item = pid product) (cart st);
          currentQtyInCart = (case existingItem of Some e \<Rightarrow> item_qty e | None \<Rightarrow> 0)
      in if currentQtyInCart \<ge> qty product then st
         else
           (case existingItem of
              Some e \<Rightarrow>
                st\<lparr>cart := map (\<lambda>item. if item_id item = pid product
                                        then item\<lparr>item_qty := item_qty item + 1\<rparr> else item) (cart st),
                   searchQuery := []\<rparr>
            | None \<Rightarrow>
                st\<lparr>cart := cart st @ [newCartItem parseFloat product],
                   searchQuery := []\<rparr>))"

text \<open>\<^verbatim>\<open>updateCartQty\<close>; \<open>changeItem\<close> is the function it maps over the cart.\<close>

definition changeItem :: "string \<Rightarrow> rat \<Rightarrow> CartItem \<Rightarrow> CartItem" where
  "changeItem i delta item =
     (if item_id item = i then
        (let newQty = item_qty item + delta
         in if newQty \<le> 0 then item
            else if newQty > maxQty item then item
            else item\<lparr>item_qty := newQty\<rparr>)
      else item)"

definition updateCartQty :: "string \<Rightarrow> rat \<Rightarrow> sale_state \<Rightarrow> sale_state" where
  "updateCartQty i delta st = st\<lparr>cart := map (changeItem i delta) (cart st)\<rparr>"

text \<open>\<^verbatim>\<open>removeFromCart\<close>.\<close>

definition removeFromCart :: "string \<Rightarrow> sale_state \<Rightarrow> sale_state" where
  "removeFromCart i st = st\<lparr>cart := filter (\<lambda>item. item_id item \<noteq> i) (cart st)\<rparr>"

text \<open>\<^verbatim>\<open>handleKeyDown\<close>: Enter on an exact SKU match with stock adds the product.\<close>

definition handleKeyDown ::
  "(string \<Rightarrow> rat option) \<Rightarrow> product list \<Rightarrow> string \<Rightarrow> sale_state \<Rightarrow> sale_state" where
  "handleKeyDown parseFloat products k st =
     (if k = ''Enter'' then
        (case find (\<lambda>p. toLowerCase (sku p) = toLowerCase (searchQuery st)) products of
           Some exactMatch \<Rightarrow> if qty exactMatch > 0 then addToCart parseFloat exactMatch st else st
         | None \<Rightarrow> st)
      else st)"

text \<open>
  The cart states of one sale: from the empty cart of a fresh component, by adding a product of
  the catalog (a click on a search result or the scanner path, both call \<^verbatim>\<open>addToCart\<close> with
  an element of \<^verbatim>\<open>products\<close>), pressing plus or minus on a line (\<^verbatim>\<open>updateCartQty\<close> with 1
  or -1; any whole step is allowed here), or removing a line.
\<close>

inductive reachable :: "(string \<Rightarrow> rat option) \<Rightarrow> product list \<Rightarrow> sale_state \<Rightarrow> bool"
  for parseFloat :: "string \<Rightarrow> rat option" and products :: "product list" where
  reach_init: "reachable parseFloat products \<lparr>searchQuery = q, cart = [], showSuccess = b\<rparr>"
| reach_add: "reachable parseFloat products st \<Longrightarrow> p \<in> set products \<Longrightarrow>
        reachable parseFloat products (addToCart parseFloat p st)"
| reach_change: "reachable parseFloat products st \<Longrightarrow> whole delta \<Longrightarrow>
        reachable parseFloat products (updateCartQty i delta st)"
| reach_remove: "reachable parseFloat products st \<Longrightarrow>
        reachable parseFloat products (removeFromCart i st)"
| reach_type: "reachable parseFloat products st \<Longrightarrow>
        reachable parseFloat products (st\<lparr>searchQuery := q\<rparr>)"

section \<open>The catalog owner: processing a sale\<close>

text \<open>Decimal rendering of a natural number inside a template literal.\<close>

function string_of_nat :: "nat \<Rightarrow> string" where
  "string_of_nat n =
     (if n < 10 then [char_of (48 + n)]
      else string_of_nat (n div 10) @ [char_of (48 + n mod 10)])"
  by pat_completeness auto
termination
  by (relation "measure id") auto

declare string_of_nat.simps [simp del]

text \<open>
  \<^verbatim>\<open>Activity\<close> and the notification objects of \<^verbatim>\<open>App.tsx\<close>. Their \<^verbatim>\<open>id\<close> and the
  activity's \<^verbatim>\<open>time\<close> come from the clock and the random generator and are left out.
\<close>

record Activity =
  user :: string
  action :: string
  target :: string
  atype :: string

record Notification =
  n_title :: string
  n_message :: string
  n_time :: string
  n_read :: bool
  n_type :: string

record app_state =
  app_products :: "product list"
  app_notifications :: "Notification list"
  app_activities :: "Activity list"

text \<open>\<^verbatim>\<open>logActivity\<close>: the new entry goes to the front.\<close>

definition logActivity :: "string \<Rightarrow> string \<Rightarrow> string \<Rightarrow> string \<Rightarrow> Activity list \<Rightarrow> Activity list" where
  "logActivity ty u a t acts = \<lparr>user = u, action = a, target = t, atype = ty\<rparr> # acts"

text \<open>
  The two alerts of \<^verbatim>\<open>handleProcessSale\<close>: each is a call of \<^verbatim>\<open>logActivity\<close> together
  with the notification pushed right after it. \<open>numToString\<close>, a parameter, is the rendering of
  a number inside a template literal.
\<close>

definition depletedAlert :: "product \<Rightarrow> Activity \<times> Notification" where
  "depletedAlert product =
     (\<lparr>user = ''System Alert'', action = ''Stock depleted for'',
       target = name product, atype = ''alert''\<rparr>,
      \<lparr>n_title = ''Out of Stock Alert'',
       n_message = name product @ '' is now out of stock.'',
       n_time = ''Just now'', n_read = False, n_type = ''alert''\<rparr>)"

definition lowStockAlert :: "(rat \<Rightarrow> string) \<Rightarrow> product \<Rightarrow> rat \<Rightarrow> Activity \<times> Notification" where
  "lowStockAlert numToString product newQty =
     (\<lparr>user = ''System Alert'', action = ''Low stock warning for'',
       target = name product, atype = ''alert''\<rparr>,
      \<lparr>n_title = ''Low Stock Alert'',
       n_message = name product @ '' is running low ('' @ numToString newQty
                   @ '' units remaining).'',
       n_time = ''Just now'', n_read = False, n_type = ''alert''\<rparr>)"

text \<open>
  Step 1 of \<^verbatim>\<open>handleProcessSale\<close>, the body of the \<^verbatim>\<open>forEach\<close> for one sold line: the
  alert it raises, if any. \<open>saleAlerts\<close> runs it over the sold lines in order.
\<close>

definition saleAlert ::
  "(rat \<Rightarrow> string) \<Rightarrow> product list \<Rightarrow> CartItem \<Rightarrow> (Activity \<times> Notification) option" where
  "saleAlert numToString products item =
     (case find (\<lambda>p. pid p = item_id item) products of
        None \<Rightarrow> None
      | Some product \<Rightarrow>
          (let newQty = max 0 (qty product - item_qty item)
           in if qty product > 0 \<and> newQty = 0 then Some (depletedAlert product)
              else if qty product \<ge> 40 \<and> newQty < 40
                then Some (lowStockAlert numToString product newQty)
              else None))"

definition saleAlerts ::
  "(rat \<Rightarrow> string) \<Rightarrow> product list \<Rightarrow> CartItem list \<Rightarrow> (Activity \<times> Notification) list" where
  "saleAlerts numToString products soldItems =
     List.map_filter (saleAlert numToString products) soldItems"

text \<open>Step 2 of \<^verbatim>\<open>handleProcessSale\<close>: the function given to \<^verbatim>\<open>setProducts\<close>.\<close>

definition updateProducts :: "CartItem list \<Rightarrow> product list \<Rightarrow> product list" where
  "updateProducts soldItems currentProducts =
     map (\<lambda>p. case find (\<lambda>item. item_id item = pid p) soldItems of
                Some soldItem \<Rightarrow>
                  (let newQty = max 0 (qty p - item_qty soldItem);
                       newStatus = getStatus newQty
                   in p\<lparr>qty := newQty, status := newStatus\<rparr>)
              | None \<Rightarrow> p) currentProducts"

text \<open>
  \<^verbatim>\<open>handleProcessSale\<close>. The name of the signed-in user and the random order number are
  parameters.
\<close>

definition handleProcessSale ::
  "(rat \<Rightarrow> string) \<Rightarrow> string \<Rightarrow> nat \<Rightarrow> CartItem list \<Rightarrow> app_state \<Rightarrow> app_state" where
  "handleProcessSale numToString currentUserName orderNo soldItems app =
     (let alerts = saleAlerts numToString (app_products app) soldItems;
          totalItems = foldl (\<lambda>acc item. acc + item_qty item) 0 soldItems;
          orderId = ''#'' @ string_of_nat orderNo;
          newNotifications = map snd alerts @
            [\<lparr>n_title = ''Sale Completed'',
              n_message = ''Sale registered for '' @ numToString totalItems @ '' items.'',
              n_time = ''Just now'', n_read = False, n_type = ''order''\<rparr>]
      in app\<lparr>app_products := updateProducts soldItems (app_products app),
             app_activities :=
               logActivity ''sale'' currentUserName ''fulfilled order''
                 (orderId @ '' ('' @ numToString totalItems @ '' items)'')
                 (rev (map fst alerts) @ app_activities app),
             app_notifications := newNotifications @ app_notifications app\<rparr>)"

text \<open>
  How a call ends: it returns, or it throws a value. \<^verbatim>\<open>handleCompleteSale\<close> of
  \<^verbatim>\<open>RegisterSale.tsx\<close> has no \<^verbatim>\<open>throw\<close>: on an empty cart it leaves through a bare
  \<^verbatim>\<open>return\<close>, otherwise through the end of its body, and sets no error anywhere. The timer
  that hides the success banner is not modelled.
\<close>

datatype completion = Normal | Throw string

definition handleCompleteSale ::
  "(rat \<Rightarrow> string) \<Rightarrow> string \<Rightarrow> nat \<Rightarrow> sale_state \<times> app_state
     \<Rightarrow> completion \<times> sale_state \<times> app_state" where
  "handleCompleteSale numToString currentUserName orderNo s =
     (case s of (st, app) \<Rightarrow>
        if length (cart st) = 0 then (Normal, st, app)
        else (Normal,
              st\<lparr>showSuccess := True, cart := []\<rparr>,
              handleProcessSale numToString currentUserName orderNo (cart st) app))"

section \<open>Inventory: filter, sort and pagination\<close>

text \<open>
  The sort configuration of \<^verbatim>\<open>Inventory\<close>: the keys \<^verbatim>\<open>name\<close>, \<^verbatim>\<open>price\<close>, \<^verbatim>\<open>qty\<close> and
  \<^verbatim>\<open>date\<close>, and the directions \<^verbatim>\<open>asc\<close> and \<^verbatim>\<open>desc\<close>.
\<close>

datatype sort_key = SortName | SortPrice | SortQty | SortDate

datatype direction = Asc | Desc

text \<open>The component state of \<^verbatim>\<open>Inventory\<close> that the listing depends on.\<close>

record inventory_state =
  searchTerm :: string
  selectedCategory :: string
  selectedStatus :: string
  sortKey :: sort_key
  sortDirection :: direction
  currentPage :: int
  isCategoryOpen :: bool
  isStatusOpen :: bool
  isSortOpen :: bool

text \<open>
  The values the comparator compares: a string, a number, or \<^verbatim>\<open>NaN\<close>. \<open>js_lt\<close> is the
  operator \<^verbatim>\<open><\<close> on two values of the same kind: code-unit order on strings, the numeric
  order on numbers, false whenever \<^verbatim>\<open>NaN\<close> takes part.
\<close>

datatype jsval = JStr string | JNum rat | JNaN

fun js_lt :: "jsval \<Rightarrow> jsval \<Rightarrow> bool" where
  "js_lt (JStr a) (JStr b) = (a < b)"
| "js_lt (JNum a) (JNum b) = (a < b)"
| "js_lt a b = False"

text \<open>
  The value the comparator extracts from a row. \<^verbatim>\<open>parseFloat\<close> and
  \<^verbatim>\<open>new Date(s).getTime()\<close> are parameters; both return \<open>None\<close> for \<^verbatim>\<open>NaN\<close>.
\<close>

definition priceValue :: "(string \<Rightarrow> rat option) \<Rightarrow> product \<Rightarrow> rat" where
  "priceValue parseFloat a =
     (case parseFloat (filter (\<lambda>c. is_digit c \<or> c = CHR ''.'') (price a)) of
        None \<Rightarrow> 0
      | Some v \<Rightarrow> v)"

definition sortValue ::
  "(string \<Rightarrow> rat option) \<Rightarrow> (string \<Rightarrow> int option) \<Rightarrow> sort_key \<Rightarrow> product \<Rightarrow> jsval" where
  "sortValue parseFloat getTime k a =
     (case k of
        SortPrice \<Rightarrow> JNum (priceValue parseFloat a)
      | SortQty \<Rightarrow> JNum (qty a)
      | SortDate \<Rightarrow> (case getTime (date a) of None \<Rightarrow> JNaN | Some t \<Rightarrow> JNum (of_int t))
      | SortName \<Rightarrow> JStr (name a))"

text \<open>The comparator given to \<^verbatim>\<open>result.sort\<close>.\<close>

definition compareFn ::
  "(string \<Rightarrow> rat option) \<Rightarrow> (string \<Rightarrow> int option) \<Rightarrow> sort_key \<Rightarrow> direction
     \<Rightarrow> product \<Rightarrow> product \<Rightarrow> int" where
  "compareFn parseFloat getTime k d a b =
     (let aValue = sortValue parseFloat getTime k a;
          bValue = sortValue parseFloat getTime k b
      in if js_lt aValue bValue then (if d = Asc then - 1 else 1)
         else if js_lt bValue aValue then (if d = Asc then 1 else - 1)
         else 0)"

text \<open>
  \<^verbatim>\<open>Array.prototype.sort\<close> belongs to the engine and is a parameter of the listing. What the
  language standard promises of it is \<open>conforming_sort\<close>: the result always holds the same
  elements; when the comparator is consistent on them (the signs of \<open>cmp a b\<close> and \<open>cmp b a\<close>
  are opposite, and \<open>\<le> 0\<close> is transitive) the result is ordered by it and elements that compare
  as equal keep their order. For any other comparator the standard leaves the order open.
\<close>

definition consistent :: "('a \<Rightarrow> 'a \<Rightarrow> int) \<Rightarrow> 'a list \<Rightarrow> bool" where
  "consistent cmp xs =
     ((\<forall>a\<in>set xs. \<forall>b\<in>set xs. (cmp a b < 0) = (0 < cmp b a)) \<and>
      (\<forall>a\<in>set xs. \<forall>b\<in>set xs. \<forall>c\<in>set xs. cmp a b \<le> 0 \<and> cmp b c \<le> 0 \<longrightarrow> cmp a c \<le> 0))"

definition conforming_sort :: "(('a \<Rightarrow> 'a \<Rightarrow> int) \<Rightarrow> 'a list \<Rightarrow> 'a list) \<Rightarrow> bool" where
  "conforming_sort srt =
     (\<forall>cmp xs. mset (srt cmp xs) = mset xs \<and>
        (consistent cmp xs \<longrightarrow>
           sorted_wrt (\<lambda>a b. cmp a b \<le> 0) (srt cmp xs) \<and>
           (\<forall>a\<in>set xs.
              filter (\<lambda>b. cmp a b = 0) (srt cmp xs) = filter (\<lambda>b. cmp a b = 0) xs)))"

text \<open>
  Two sorts. \<open>sort_cmp\<close> is insertion sort, where an element passes another one only if the
  comparator returns a positive number for the pair. \<open>v8_sort\<close> is what the V8 engine does on an
  array of fewer than 64 elements: \<^verbatim>\<open>CountAndMakeRun\<close> takes the longest run at the front
  that is either non-descending or strictly descending (the latter is reversed), then
  \<^verbatim>\<open>BinaryInsertionSort\<close> places each remaining element by binary search, going left when
  the comparator returns a negative number and right otherwise.
\<close>

fun insert_cmp :: "('a \<Rightarrow> 'a \<Rightarrow> int) \<Rightarrow> 'a \<Rightarrow> 'a list \<Rightarrow> 'a list" where
  "insert_cmp cmp x [] = [x]"
| "insert_cmp cmp x (y # ys) = (if cmp x y \<le> 0 then x # y # ys else y # insert_cmp cmp x ys)"

definition sort_cmp :: "('a \<Rightarrow> 'a \<Rightarrow> int) \<Rightarrow> 'a list \<Rightarrow> 'a list" where
  "sort_cmp cmp xs = foldr (insert_cmp cmp) xs []"

fun run_more :: "('a \<Rightarrow> 'a \<Rightarrow> int) \<Rightarrow> bool \<Rightarrow> 'a \<Rightarrow> 'a list \<Rightarrow> nat" where
  "run_more cmp isDescending previousElement [] = 0"
| "run_more cmp isDescending previousElement (currentElement # rest) =
     (let order = cmp currentElement previousElement
      in if (if isDescending then order \<ge> 0 else order < 0) then 0
         else Suc (run_more cmp isDescending currentElement rest))"

definition countAndMakeRun :: "('a \<Rightarrow> 'a \<Rightarrow> int) \<Rightarrow> 'a list \<Rightarrow> 'a list \<times> 'a list" where
  "countAndMakeRun cmp xs =
     (case xs of
        elementHigh # elementLow # rest \<Rightarrow>
          (let isDescending = (cmp elementLow elementHigh < 0);
               runLength = 2 + run_more cmp isDescending elementLow rest
           in ((if isDescending then rev (take runLength xs) else take runLength xs),
               drop runLength xs))
      | _ \<Rightarrow> (xs, []))"

function binarySearch :: "('a \<Rightarrow> 'a \<Rightarrow> int) \<Rightarrow> 'a \<Rightarrow> 'a list \<Rightarrow> nat \<Rightarrow> nat \<Rightarrow> nat" where
  "binarySearch cmp pivot xs left right =
     (if left < right then
        (let mid = left + (right - left) div 2
         in if cmp pivot (xs ! mid) < 0 then binarySearch cmp pivot xs left mid
            else binarySearch cmp pivot xs (mid + 1) right)
      else left)"
  by pat_completeness auto
termination
  by (relation "measure (\<lambda>(cmp, pivot, xs, left, right). right - left)") auto

declare binarySearch.simps [simp del]

definition binaryInsert :: "('a \<Rightarrow> 'a \<Rightarrow> int) \<Rightarrow> 'a list \<Rightarrow> 'a \<Rightarrow> 'a list" where
  "binaryInsert cmp placed pivot =
     (let left = binarySearch cmp pivot placed 0 (length placed)
      in take left placed @ pivot # drop left placed)"

definition v8_sort :: "('a \<Rightarrow> 'a \<Rightarrow> int) \<Rightarrow> 'a list \<Rightarrow> 'a list" where
  "v8_sort cmp xs =
     (if length xs < 2 then xs
      else (case countAndMakeRun cmp xs of (run, rest) \<Rightarrow> foldl (binaryInsert cmp) run rest))"

text \<open>The filter predicate of \<^verbatim>\<open>processedProducts\<close>.\<close>

definition matchesFilter :: "inventory_state \<Rightarrow> product \<Rightarrow> bool" where
  "matchesFilter st product =
     (let matchesSearch =
            (includes_str (toLowerCase (name product)) (toLowerCase (searchTerm st)) \<or>
             includes_str (toLowerCase (sku product)) (toLowerCase (searchTerm st)) \<or>
             includes_str (toLowerCase (category product)) (toLowerCase (searchTerm st)));
          matchesCategory = (selectedCategory st = ''All'' \<or> category product = selectedCategory st);
          matchesStatus = (selectedStatus st = ''All'' \<or> status product = selectedStatus st)
      in matchesSearch \<and> matchesCategory \<and> matchesStatus)"

text \<open>\<^verbatim>\<open>processedProducts\<close>: \<open>srt\<close> is the engine's \<^verbatim>\<open>Array.prototype.sort\<close>.\<close>

definition processedProducts ::
  "((product \<Rightarrow> product \<Rightarrow> int) \<Rightarrow> product list \<Rightarrow> product list)
     \<Rightarrow> (string \<Rightarrow> rat option) \<Rightarrow> (string \<Rightarrow> int option) \<Rightarrow> product list \<Rightarrow> inventory_state
     \<Rightarrow> product list" where
  "processedProducts srt parseFloat getTime products st =
     srt (compareFn parseFloat getTime (sortKey st) (sortDirection st))
       (filter (matchesFilter st) products)"

text \<open>Pagination: \<^verbatim>\<open>ITEMS_PER_PAGE\<close>, \<^verbatim>\<open>totalPages\<close>, \<^verbatim>\<open>Array.prototype.slice\<close>.\<close>

definition ITEMS_PER_PAGE :: int where
  "ITEMS_PER_PAGE = 20"

definition totalPages :: "nat \<Rightarrow> int" where
  "totalPages n = \<lceil>(of_nat n :: rat) / of_int ITEMS_PER_PAGE\<rceil>"

definition slice :: "'a list \<Rightarrow> int \<Rightarrow> int \<Rightarrow> 'a list" where
  "slice xs start stop =
     (let len = int (length xs);
          k = (if start < 0 then max (len + start) 0 else min start len);
          final = (if stop < 0 then max (len + stop) 0 else min stop len)
      in take (nat (final - k)) (drop (nat k) xs))"

definition paginatedProducts ::
  "((product \<Rightarrow> product \<Rightarrow> int) \<Rightarrow> product list \<Rightarrow> product list)
     \<Rightarrow> (string \<Rightarrow> rat option) \<Rightarrow> (string \<Rightarrow> int option) \<Rightarrow> product list \<Rightarrow> inventory_state
     \<Rightarrow> product list" where
  "paginatedProducts srt parseFloat getTime products st =
     (let startIndex = (currentPage st - 1) * ITEMS_PER_PAGE
      in slice (processedProducts srt parseFloat getTime products st) startIndex
           (startIndex + ITEMS_PER_PAGE))"

definition goToPage ::
  "((product \<Rightarrow> product \<Rightarrow> int) \<Rightarrow> product list \<Rightarrow> product list)
     \<Rightarrow> (string \<Rightarrow> rat option) \<Rightarrow> (string \<Rightarrow> int option) \<Rightarrow> product list \<Rightarrow> int
     \<Rightarrow> inventory_state \<Rightarrow> inventory_state" where
  "goToPage srt parseFloat getTime products page st =
     (if page \<ge> 1
         \<and> page \<le> totalPages (length (processedProducts srt parseFloat getTime products st))
      then st\<lparr>currentPage := page\<rparr> else st)"

text \<open>
  The effect \<^verbatim>\<open>useEffect(() => setCurrentPage(1), [searchTerm, selectedCategory,
  selectedStatus, sortConfig])\<close>, run after an event took the state from \<open>old\<close> to \<open>new\<close>. The
  three strings are compared by value; \<^verbatim>\<open>sortConfig\<close> is an object compared by identity, and
  \<open>fresh\<close> says that the event stored a new object.
\<close>

definition pageResetEffect :: "inventory_state \<Rightarrow> bool \<Rightarrow> inventory_state \<Rightarrow> inventory_state" where
  "pageResetEffect old fresh new =
     (if searchTerm new \<noteq> searchTerm old \<or> selectedCategory new \<noteq> selectedCategory old
         \<or> selectedStatus new \<noteq> selectedStatus old \<or> fresh
      then new\<lparr>currentPage := 1\<rparr> else new)"

text \<open>The events of the filter bar, each followed by the effect.\<close>

definition setSearchTerm :: "string \<Rightarrow> inventory_state \<Rightarrow> inventory_state" where
  "setSearchTerm v st = pageResetEffect st False (st\<lparr>searchTerm := v\<rparr>)"

definition selectCategory :: "string \<Rightarrow> inventory_state \<Rightarrow> inventory_state" where
  "selectCategory cat st =
     pageResetEffect st False (st\<lparr>selectedCategory := cat, isCategoryOpen := False\<rparr>)"

definition selectStatus :: "string \<Rightarrow> inventory_state \<Rightarrow> inventory_state" where
  "selectStatus s st =
     pageResetEffect st False (st\<lparr>selectedStatus := s, isStatusOpen := False\<rparr>)"

definition handleSort :: "sort_key \<Rightarrow> direction \<Rightarrow> inventory_state \<Rightarrow> inventory_state" where
  "handleSort k d st =
     pageResetEffect st True (st\<lparr>sortKey := k, sortDirection := d, isSortOpen := False\<rparr>)"

definition clearAllFilters :: "inventory_state \<Rightarrow> inventory_state" where
  "clearAllFilters st =
     pageResetEffect st False
       (st\<lparr>searchTerm := [], selectedCategory := ''All'', selectedStatus := ''All''\<rparr>)"

section \<open>Add or edit a product\<close>

text \<open>
  \<^verbatim>\<open>formData\<close> and the error fields of \<^verbatim>\<open>AddProduct\<close>. The quantity field holds
  \<^verbatim>\<open>Number(formData.qty)\<close>.
\<close>

record formData =
  form_name :: string
  form_sku :: string
  form_category :: string
  form_price :: string
  form_qty :: rat
  form_description :: string
  form_imgId :: string
  form_customImage :: string
  form_date :: string

record add_state =
  form :: formData
  skuError :: "string option"
  qtyError :: "string option"
  priceError :: "string option"

text \<open>The object \<^verbatim>\<open>productData\<close> handed to \<^verbatim>\<open>onSave\<close>; \<open>pd_id\<close> is present when editing.\<close>

record productData =
  pd_id :: "string option"
  pd_name :: string
  pd_sku :: string
  pd_category :: string
  pd_price :: string
  pd_qty :: rat
  pd_description :: string
  pd_imgId :: string
  pd_customImage :: string
  pd_date :: string

text \<open>
  \<^verbatim>\<open>checkSkuUnique\<close>: \<open>products\<close> is the optional property of the component, \<open>editId\<close> the
  route parameter \<^verbatim>\<open>id\<close>, absent when a product is created.
\<close>

definition checkSkuUnique :: "product list option \<Rightarrow> string option \<Rightarrow> string \<Rightarrow> bool" where
  "checkSkuUnique products editId skuToCheck =
     (case products of
        None \<Rightarrow> True
      | Some ps \<Rightarrow>
          \<not> list_ex (\<lambda>p. toLowerCase (sku p) = toLowerCase skuToCheck \<and> Some (pid p) \<noteq> editId) ps)"

text \<open>
  \<^verbatim>\<open>handleSubmit\<close>. The result is the object passed to \<^verbatim>\<open>onSave\<close>, or \<open>None\<close> when the
  function returned before the call, together with the component state, where the three guarded
  returns leave their message. Parameters: \<^verbatim>\<open>parseFloat\<close>; \<open>toFixed2\<close>, the rendering
  \<^verbatim>\<open>parseFloat(formData.price).toFixed(2)\<close> of the price with its currency sign; and
  \<open>generatedSku\<close>, what \<^verbatim>\<open>generateUniqueSku()\<close> returns when the SKU field is empty.
\<close>

definition handleSubmit ::
  "(string \<Rightarrow> rat option) \<Rightarrow> (rat \<Rightarrow> string) \<Rightarrow> string \<Rightarrow> product list option \<Rightarrow> string option
     \<Rightarrow> add_state \<Rightarrow> productData option \<times> add_state" where
  "handleSubmit parseFloat toFixed2 generatedSku products editId st =
     (let formData = form st in
      if form_name formData = [] \<or> form_price formData = [] then (None, st)
      else if priceError st \<noteq> None \<or> parseFloat (form_price formData) = None then
        (None, st\<lparr>priceError := Some ''Insert a valid number''\<rparr>)
      else if form_qty formData < 1 then
        (None, st\<lparr>qtyError := Some ''At least 1 unit is required''\<rparr>)
      else
        (let finalSku = trim (form_sku formData) in
         if finalSku \<noteq> [] \<and> \<not> checkSkuUnique products editId finalSku then
           (None,
            st\<lparr>skuError := Some ''This SKU is already in use. Please enter a unique SKU.''\<rparr>)
         else
           (Some \<lparr>pd_id = (case editId of Some i \<Rightarrow> if i \<noteq> [] then Some i else None
                                         | None \<Rightarrow> None),
                  pd_name = form_name formData,
                  pd_sku = (if finalSku = [] then generatedSku else finalSku),
                  pd_category = form_category formData,
                  pd_price = toFixed2 (the (parseFloat (form_price formData))),
                  pd_qty = form_qty formData,
                  pd_description = form_description formData,
                  pd_imgId = form_imgId formData,
                  pd_customImage = form_customImage formData,
                  pd_date = form_date formData\<rparr>, st)))"

text \<open>
  \<^verbatim>\<open>handleSaveProduct\<close> of \<^verbatim>\<open>App.tsx\<close>, the \<^verbatim>\<open>onSave\<close> of the form. \<open>newId\<close> is
  \<^verbatim>\<open>Date.now().toString()\<close>.
\<close>

definition productWithStatus :: "string \<Rightarrow> productData \<Rightarrow> product" where
  "productWithStatus i pd =
     \<lparr>pid = i, name = pd_name pd, sku = pd_sku pd, category = pd_category pd,
      price = pd_price pd, qty = pd_qty pd, status = getStatus (pd_qty pd),
      imgId = pd_imgId pd, date = pd_date pd,
      description = Some (pd_description pd), customImage = Some (pd_customImage pd)\<rparr>"

definition saveActivities ::
  "(rat \<Rightarrow> string) \<Rightarrow> string \<Rightarrow> productData \<Rightarrow> product list \<Rightarrow> Activity list \<Rightarrow> Activity list" where
  "saveActivities numToString currentUserName pd products acts =
     (let q = pd_qty pd in
      case find (\<lambda>p. Some (pid p) = pd_id pd) products of
        Some existingProduct \<Rightarrow>
          (let oldQty = qty existingProduct;
               acts1 =
                 (if q > oldQty then
                    logActivity ''add'' currentUserName
                      (''added '' @ numToString (q - oldQty) @ '' units of'') (pd_name pd) acts
                  else if q < oldQty then
                    logActivity ''edit'' currentUserName
                      (''removed '' @ numToString (oldQty - q) @ '' units from'') (pd_name pd) acts
                  else if price existingProduct \<noteq> pd_price pd then
                    logActivity ''edit'' currentUserName ''updated price for'' (pd_name pd) acts
                  else acts);
               acts2 =
                 (if oldQty \<ge> 40 \<and> q < 40 \<and> q > 0 then
                    logActivity ''alert'' ''System Alert'' ''Low stock warning for'' (pd_name pd) acts1
                  else acts1)
           in if oldQty > 0 \<and> q = 0 then
                logActivity ''alert'' ''System Alert'' ''Stock depleted for'' (pd_name pd) acts2
              else acts2)
      | None \<Rightarrow> logActivity ''add'' currentUserName ''created new product'' (pd_name pd) acts)"

definition saveNotifications ::
  "(rat \<Rightarrow> string) \<Rightarrow> productData \<Rightarrow> Notification list \<Rightarrow> Notification list" where
  "saveNotifications numToString pd ns =
     (let q = pd_qty pd in
      if q = 0 then
        \<lparr>n_title = ''Out of Stock Alert'', n_message = pd_name pd @ '' is now out of stock.'',
         n_time = ''Just now'', n_read = False, n_type = ''alert''\<rparr> # ns
      else if q < 40 then
        \<lparr>n_title = ''Low Stock Alert'',
         n_message = pd_name pd @ '' is running low ('' @ numToString q @ '' units remaining).'',
         n_time = ''Just now'', n_read = False, n_type = ''alert''\<rparr> # ns
      else ns)"

definition handleSaveProduct ::
  "(rat \<Rightarrow> string) \<Rightarrow> string \<Rightarrow> string \<Rightarrow> productData \<Rightarrow> app_state \<Rightarrow> app_state" where
  "handleSaveProduct numToString currentUserName newId pd app =
     app\<lparr>app_activities :=
           saveActivities numToString currentUserName pd (app_products app) (app_activities app),
         app_products :=
           (case pd_id pd of
              Some i \<Rightarrow> map (\<lambda>p. if pid p = i then productWithStatus i pd else p) (app_products app)
            | None \<Rightarrow> productWithStatus newId pd # app_products app),
         app_notifications := saveNotifications numToString pd (app_notifications app)\<rparr>"

text \<open>
  Submitting the form against the application state: \<^verbatim>\<open>handleSubmit\<close> reads the catalog it
  was rendered with and calls \<^verbatim>\<open>onSave\<close> only when it did not return early. The first
  component of the result is the object that was saved, if any.
\<close>

definition submitProduct ::
  "(string \<Rightarrow> rat option) \<Rightarrow> (rat \<Rightarrow> string) \<Rightarrow> (rat \<Rightarrow> string) \<Rightarrow> string \<Rightarrow> string \<Rightarrow> string
     \<Rightarrow> string option \<Rightarrow> add_state \<times> app_state \<Rightarrow> productData option \<times> add_state \<times> app_state" where
  "submitProduct parseFloat toFixed2 numToString generatedSku currentUserName newId editId s =
     (case s of (st, app) \<Rightarrow>
        (case handleSubmit parseFloat toFixed2 generatedSku (Some (app_products app)) editId st of
           (None, st') \<Rightarrow> (None, st', app)
         | (Some pd, st') \<Rightarrow>
             (Some pd, st', handleSaveProduct numToString currentUserName newId pd app)))"

section \<open>Invariants and example data\<close>


text \<open>A row has a valid sort key unless the key is the date and the date does not parse.\<close>

definition validKey :: "(string \<Rightarrow> int option) \<Rightarrow> sort_key \<Rightarrow> product \<Rightarrow> bool" where
  "validKey getTime k a = (k = SortDate \<longrightarrow> getTime (date a) \<noteq> None)"

text \<open>
  Stand-ins for the built-ins on the few values used: \<^verbatim>\<open>parseFloat\<close>, \<^verbatim>\<open>getTime\<close>,
  \<^verbatim>\<open>toFixed\<close> and the rendering of whole numbers.
\<close>

definition exampleParse :: "string \<Rightarrow> rat option" where
  "exampleParse s =
     (if s = ''5'' then Some 5 else if s = ''25.00'' then Some 25
      else if s = ''12.50'' then Some (25 / 2) else None)"

definition exampleGetTime :: "string \<Rightarrow> int option" where
  "exampleGetTime s =
     (if s = ''2023-10-15'' then Some 1697328000000
      else if s = ''2023-10-20'' then Some 1697760000000
      else if s = ''2023-11-01'' then Some 1698796800000 else None)"

definition exampleToFixed :: "rat \<Rightarrow> string" where
  "exampleToFixed r = ''5.00''"

definition exampleToString :: "rat \<Rightarrow> string" where
  "exampleToString q =
     (if q < 0 then ''-'' @ string_of_nat (nat (- \<lfloor>q\<rfloor>)) else string_of_nat (nat \<lfloor>q\<rfloor>))"

text \<open>
  A two-product catalog with stock 5 and 2 and a cart holding 3 and 2 units of them; a product
  with stock 45 and a line of 10 units of it; a product with stock two and a half.
\<close>

definition exampleProduct :: "string \<Rightarrow> rat \<Rightarrow> product" where
  "exampleProduct i q =
     \<lparr>pid = i, name = ''Product '' @ i, sku = ''SKU-'' @ i, category = ''Electronics'',
      price = ''$25.00'', qty = q, status = getStatus q, imgId = ''4'', date = ''2023-10-15'',
      description = None, customImage = None\<rparr>"

definition exampleCatalog :: "product list" where
  "exampleCatalog = [exampleProduct ''A'' 5, exampleProduct ''B'' 2]"

definition exampleLine :: "string \<Rightarrow> rat \<Rightarrow> rat \<Rightarrow> CartItem" where
  "exampleLine i q m =
     \<lparr>item_id = i, item_name = ''Product '' @ i, item_price = 25, item_qty = q,
      maxQty = m, item_sku = ''SKU-'' @ i\<rparr>"

definition exampleSale :: sale_state where
  "exampleSale =
     \<lparr>searchQuery = [], cart = [exampleLine ''A'' 3 5, exampleLine ''B'' 2 2], showSuccess = False\<rparr>"

definition emptySale :: sale_state where
  "emptySale = \<lparr>searchQuery = ''sku'', cart = [], showSuccess = False\<rparr>"

definition exampleApp :: app_state where
  "exampleApp = \<lparr>app_products = exampleCatalog, app_notifications = [], app_activities = []\<rparr>"

definition lowSale :: sale_state where
  "lowSale = \<lparr>searchQuery = [], cart = [exampleLine ''C'' 10 45], showSuccess = False\<rparr>"

definition lowApp :: app_state where
  "lowApp =
     \<lparr>app_products = [exampleProduct ''C'' 45], app_notifications = [], app_activities = []\<rparr>"


text \<open>
  Data for the listing: three products of which two share a price; seven products dated the 15th
  or the 20th of October, the third with an empty date; four products with rising dates, the
  third with an empty date; a numbered catalog of any length; and the initial state of the
  listing.
\<close>

definition pricedProduct :: "string \<Rightarrow> string \<Rightarrow> product" where
  "pricedProduct i pr = (exampleProduct i 5)\<lparr>price := pr\<rparr>"

definition priceCatalog :: "product list" where
  "priceCatalog =
     [pricedProduct ''1'' ''25.00'', pricedProduct ''2'' ''12.50'', pricedProduct ''3'' ''25.00'']"

definition datedProduct :: "string \<Rightarrow> string \<Rightarrow> product" where
  "datedProduct i d = (exampleProduct i 5)\<lparr>date := d\<rparr>"

definition dateCatalog :: "product list" where
  "dateCatalog =
     [datedProduct ''1'' ''2023-10-15'', datedProduct ''2'' ''2023-10-20'', datedProduct ''3'' [],
      datedProduct ''4'' ''2023-10-20'', datedProduct ''5'' ''2023-10-20'',
      datedProduct ''6'' ''2023-10-20'', datedProduct ''7'' ''2023-10-20'']"

definition fourCatalog :: "product list" where
  "fourCatalog =
     [datedProduct ''1'' ''2023-10-15'', datedProduct ''2'' ''2023-10-20'', datedProduct ''3'' [],
      datedProduct ''4'' ''2023-11-01'']"

definition numberedCatalog :: "nat \<Rightarrow> product list" where
  "numberedCatalog n = map (\<lambda>i. exampleProduct (string_of_nat i) 5) [1..<Suc n]"

definition exampleInventory :: inventory_state where
  "exampleInventory =
     \<lparr>searchTerm = [], selectedCategory = ''All'', selectedStatus = ''All'',
      sortKey = SortDate, sortDirection = Desc, currentPage = 1,
      isCategoryOpen = False, isStatusOpen = False, isSortOpen = False\<rparr>"

text \<open>Data for the form: a filled-in form and a catalog holding the SKU \<^verbatim>\<open>ABC-1\<close>.\<close>

definition exampleForm :: "string \<Rightarrow> rat \<Rightarrow> add_state" where
  "exampleForm s q =
     \<lparr>form = \<lparr>form_name = ''Widget'', form_sku = s, form_category = ''Electronics'',
               form_price = ''5'', form_qty = q, form_description = [], form_imgId = ''10'',
               form_customImage = [], form_date = ''2023-10-15''\<rparr>,
      skuError = None, qtyError = None, priceError = None\<rparr>"

definition skuApp :: app_state where
  "skuApp =
     \<lparr>app_products = [(exampleProduct ''7'' 5)\<lparr>sku := ''ABC-1''\<rparr>],
      app_notifications = [], app_activities = []\<rparr>"

section \<open>Stock status\<close>

text \<open>
  C6. For every non-negative quantity the status is Out of Stock exactly at 0, Low Stock exactly
  strictly between 0 and 40, In Stock exactly from 40 on; 0, 39 and 40 give Out of Stock, Low
  Stock and In Stock.
\<close>

theorem getStatus_thresholds:
  assumes "0 \<le> q"
  shows "(getStatus q = ''Out of Stock'' \<longleftrightarrow> q = 0)
       \<and> (getStatus q = ''Low Stock'' \<longleftrightarrow> 0 < q \<and> q < 40)
       \<and> (getStatus q = ''In Stock'' \<longleftrightarrow> 40 \<le> q)
       \<and> getStatus 0 = ''Out of Stock''
       \<and> getStatus 39 = ''Low Stock''
       \<and> getStatus 40 = ''In Stock''"
  using assms by (auto simp: getStatus_def)

theorem getStatus_thresholds_witness:
  "(0::rat) \<le> 39
   \<and> (getStatus 39 = ''Out of Stock'' \<longleftrightarrow> (39::rat) = 0)
   \<and> (getStatus 39 = ''Low Stock'' \<longleftrightarrow> (0::rat) < 39 \<and> (39::rat) < 40)
   \<and> (getStatus 39 = ''In Stock'' \<longleftrightarrow> (40::rat) \<le> 39)"
  using getStatus_thresholds [of 39] by simp

section \<open>Lists searched by key, whole numbers\<close>

lemma find_SomeD: "find P xs = Some x \<Longrightarrow> x \<in> set xs \<and> P x"
  by (induction xs) (auto split: if_splits)

lemma find_NoneD: "find P xs = None \<Longrightarrow> \<forall>x\<in>set xs. \<not> P x"
  by (induction xs) (auto split: if_splits)

lemma find_NoneI: "\<forall>x\<in>set xs. \<not> P x \<Longrightarrow> find P xs = None"
  by (induction xs) auto

lemma find_append_skip: "\<forall>x\<in>set xs. \<not> P x \<Longrightarrow> find P (xs @ ys) = find P ys"
  by (induction xs) auto

lemma find_map_same:
  "(\<And>x. P (f x) = P x) \<Longrightarrow> find P (map f xs) = map_option f (find P xs)"
  by (induction xs) auto

lemma distinct_key_eq:
  "distinct (map f xs) \<Longrightarrow> x \<in> set xs \<Longrightarrow> y \<in> set xs \<Longrightarrow> f x = f y \<Longrightarrow> x = y"
  by (auto simp: distinct_map dest: inj_onD)

lemma find_distinct_key:
  assumes "distinct (map f xs)" and "x \<in> set xs" and "f x = k"
  shows "find (\<lambda>y. f y = k) xs = Some x"
proof (cases "find (\<lambda>y. f y = k) xs")
  case None
  with assms show ?thesis by (auto dest: find_NoneD)
next
  case (Some y)
  then have "y \<in> set xs" "f y = k" by (auto dest: find_SomeD)
  with assms have "y = x" by (auto intro: distinct_key_eq)
  with Some show ?thesis by simp
qed

lemma whole_iff: "whole q \<longleftrightarrow> (\<exists>n::int. q = of_int n)"
  unfolding whole_def by (rule of_int_floor_cancel)

lemma whole_of_nat [simp]: "whole (of_nat n)"
  unfolding whole_iff by (rule exI [of _ "int n"]) simp

lemma whole_1 [simp]: "whole 1"
  using whole_of_nat [of 1] by simp


lemma whole_less_add1:
  assumes "whole a" and "whole b" and "a < b"
  shows "a + 1 \<le> b"
proof -
  obtain m n :: int where mn: "a = of_int m" "b = of_int n"
    using assms(1,2) unfolding whole_iff by blast
  then have "m < n" using assms(3) by simp
  then have "m + 1 \<le> n" by simp
  then have "(of_int (m + 1) :: rat) \<le> of_int n" by (simp only: of_int_le_iff)
  then show ?thesis using mn by simp
qed


section \<open>Adding to the cart\<close>

lemma addToCart_new:
  assumes "0 < qty p" and "\<forall>item\<in>set (cart st). item_id item \<noteq> pid p"
  shows "addToCart pf p st = st\<lparr>cart := cart st @ [newCartItem pf p], searchQuery := []\<rparr>"
proof -
  have "find (\<lambda>item. item_id item = pid p) (cart st) = None"
    using assms(2) by (intro find_NoneI) simp
  then show ?thesis using assms(1) by (simp add: addToCart_def)
qed

lemma addToCart_last:
  assumes "\<forall>item\<in>set c0. item_id item \<noteq> pid p" and "item_id l = pid p"
    and "cart st = c0 @ [l]"
  shows "addToCart pf p st =
     (if qty p \<le> item_qty l then st
      else st\<lparr>cart := c0 @ [l\<lparr>item_qty := item_qty l + 1\<rparr>], searchQuery := []\<rparr>)"
proof -
  have f: "find (\<lambda>item. item_id item = pid p) (cart st) = Some l"
    using assms by (simp add: find_append_skip)
  have m: "map (\<lambda>item. if item_id item = pid p then item\<lparr>item_qty := item_qty item + 1\<rparr>
                        else item) c0 = c0"
    using assms(1) by (intro map_idI) simp
  show ?thesis using f m assms(2,3) by (simp add: addToCart_def)
qed

lemma addToCart_iterate:
  assumes "qty p = of_nat s" and "0 < s"
    and "\<forall>item\<in>set (cart st). item_id item \<noteq> pid p"
  shows "(addToCart pf p ^^ Suc k) st =
     st\<lparr>cart := cart st @ [(newCartItem pf p)\<lparr>item_qty := of_nat (min (Suc k) s)\<rparr>],
        searchQuery := []\<rparr>"
proof (induction k)
  case 0
  have pos: "0 < qty p" using assms(1,2) by simp
  have "(newCartItem pf p)\<lparr>item_qty := of_nat (min (Suc 0) s)\<rparr> = newCartItem pf p"
    using assms(2) by (simp add: newCartItem_def min_def)
  then show ?case using addToCart_new [OF pos assms(3)] by simp
next
  case (Suc k)
  let ?l = "(newCartItem pf p)\<lparr>item_qty := of_nat (min (Suc k) s)\<rparr>"
  let ?st = "st\<lparr>cart := cart st @ [?l], searchQuery := []\<rparr>"
  have i: "item_id ?l = pid p" by (simp add: newCartItem_def)
  have c: "cart ?st = cart st @ [?l]" by simp
  have "(addToCart pf p ^^ Suc (Suc k)) st = addToCart pf p ?st"
    using Suc.IH by simp
  also have "\<dots> = (if qty p \<le> item_qty ?l then ?st
      else ?st\<lparr>cart := cart st @ [?l\<lparr>item_qty := item_qty ?l + 1\<rparr>], searchQuery := []\<rparr>)"
    by (rule addToCart_last [OF assms(3) i c])
  also have "\<dots> = st\<lparr>cart := cart st @
        [(newCartItem pf p)\<lparr>item_qty := of_nat (min (Suc (Suc k)) s)\<rparr>], searchQuery := []\<rparr>"
  proof (cases "s \<le> Suc k")
    case True
    then have "min (Suc k) s = s" "min (Suc (Suc k)) s = s" by simp_all
    then show ?thesis using assms(1) by simp
  next
    case False
    then have m: "min (Suc k) s = Suc k" "min (Suc (Suc k)) s = Suc (Suc k)" by simp_all
    have "\<not> (of_nat s :: rat) \<le> of_nat (Suc k)" using False by (metis of_nat_le_iff)
    then show ?thesis using assms(1) unfolding m by (simp add: add.commute)
  qed
  finally show ?case .
qed

text \<open>
  C2. For a product \<open>p\<close> whose stock is the whole number \<open>s > 0\<close> and a cart with no line for
  \<open>p\<close>: the first \<^verbatim>\<open>addToCart\<close> appends a line with quantity 1, the ceiling \<open>s\<close> and, as price,
  the number \<^verbatim>\<open>parseFloat\<close> reads from the product's current price string once everything
  but digits, dot and minus is removed (0 if it reads none); after \<open>k\<close> calls the line holds
  \<open>min k s\<close>, so exactly \<open>s\<close> after \<open>s\<close> calls; the call after that changes nothing. A call on a
  cart that already has the line, with a whole quantity, adds 1 exactly when the new quantity
  stays within the stock.
\<close>

theorem addToCart_fills_to_stock:
  assumes "qty p = of_nat s" and "0 < s"
    and "\<forall>item\<in>set (cart st). item_id item \<noteq> pid p"
  shows "cart (addToCart pf p st) = cart st @
            [\<lparr>item_id = pid p, item_name = name p,
              item_price =
                (case pf (filter (\<lambda>c. is_digit c \<or> c = CHR ''.'' \<or> c = CHR ''-'') (price p)) of
                   None \<Rightarrow> 0 | Some v \<Rightarrow> v),
              item_qty = 1, maxQty = of_nat s, item_sku = sku p\<rparr>]
       \<and> (\<forall>k. cart ((addToCart pf p ^^ Suc k) st) = cart st @
            [\<lparr>item_id = pid p, item_name = name p,
              item_price =
                (case pf (filter (\<lambda>c. is_digit c \<or> c = CHR ''.'' \<or> c = CHR ''-'') (price p)) of
                   None \<Rightarrow> 0 | Some v \<Rightarrow> v),
              item_qty = of_nat (min (Suc k) s), maxQty = of_nat s, item_sku = sku p\<rparr>])
       \<and> cart ((addToCart pf p ^^ s) st) = cart st @
            [\<lparr>item_id = pid p, item_name = name p,
              item_price =
                (case pf (filter (\<lambda>c. is_digit c \<or> c = CHR ''.'' \<or> c = CHR ''-'') (price p)) of
                   None \<Rightarrow> 0 | Some v \<Rightarrow> v),
              item_qty = of_nat s, maxQty = of_nat s, item_sku = sku p\<rparr>]
       \<and> (addToCart pf p ^^ Suc s) st = (addToCart pf p ^^ s) st
       \<and> (\<forall>st' e. find (\<lambda>item. item_id item = pid p) (cart st') = Some e \<and> whole (item_qty e) \<longrightarrow>
             addToCart pf p st' =
               (if item_qty e + 1 \<le> qty p
                then st'\<lparr>cart := map (\<lambda>item. if item_id item = pid p
                                 then item\<lparr>item_qty := item_qty item + 1\<rparr> else item) (cart st'),
                         searchQuery := []\<rparr>
                else st'))"
proof -
  obtain m where m: "s = Suc m"
    using assms(2) by (cases s) auto
  have b: "\<forall>k. cart ((addToCart pf p ^^ Suc k) st) =
      cart st @ [(newCartItem pf p)\<lparr>item_qty := of_nat (min (Suc k) s)\<rparr>]"
    by (simp only: addToCart_iterate [OF assms]) simp
  have a: "cart (addToCart pf p st) = cart st @ [(newCartItem pf p)\<lparr>item_qty := 1\<rparr>]"
    using b [rule_format, of 0] assms(2) by (simp add: min_def)
  have c: "cart ((addToCart pf p ^^ s) st) =
      cart st @ [(newCartItem pf p)\<lparr>item_qty := of_nat s\<rparr>]"
    using b [rule_format, of m] unfolding m by simp
  have "min (Suc (Suc m)) s = min (Suc m) s" using m by simp
  then have d: "(addToCart pf p ^^ Suc s) st = (addToCart pf p ^^ s) st"
    unfolding m by (simp only: addToCart_iterate [OF assms [unfolded m]])
  have e: "\<forall>st' e. find (\<lambda>item. item_id item = pid p) (cart st') = Some e \<and> whole (item_qty e) \<longrightarrow>
             addToCart pf p st' =
               (if item_qty e + 1 \<le> qty p
                then st'\<lparr>cart := map (\<lambda>item. if item_id item = pid p
                                 then item\<lparr>item_qty := item_qty item + 1\<rparr> else item) (cart st'),
                         searchQuery := []\<rparr>
                else st')"
  proof (intro allI impI, elim conjE)
    fix st' :: sale_state and e
    assume f: "find (\<lambda>item. item_id item = pid p) (cart st') = Some e" and w: "whole (item_qty e)"
    have wq: "whole (qty p)" using assms(1) by simp
    have "(qty p \<le> item_qty e) = (\<not> item_qty e + 1 \<le> qty p)"
    proof (cases "item_qty e < qty p")
      case True
      then show ?thesis using whole_less_add1 [OF w wq] by simp
    next
      case False
      then show ?thesis by simp
    qed
    then show "addToCart pf p st' =
               (if item_qty e + 1 \<le> qty p
                then st'\<lparr>cart := map (\<lambda>item. if item_id item = pid p
                                 then item\<lparr>item_qty := item_qty item + 1\<rparr> else item) (cart st'),
                         searchQuery := []\<rparr>
                else st')"
      using f by (simp add: addToCart_def)
  qed
  show ?thesis using a b c d e assms(1) by (simp add: newCartItem_def priceNum_def)
qed

theorem addToCart_fills_to_stock_witness:
  "qty (exampleProduct ''B'' 2) = of_nat 2
   \<and> (0::nat) < 2
   \<and> cart emptySale = []
   \<and> price (exampleProduct ''B'' 2) = ''$25.00''
   \<and> cart (addToCart exampleParse (exampleProduct ''B'' 2) emptySale) = [exampleLine ''B'' 1 2]
   \<and> item_price (exampleLine ''B'' 1 2) = 25
   \<and> cart ((addToCart exampleParse (exampleProduct ''B'' 2) ^^ 2) emptySale)
       = [exampleLine ''B'' 2 2]
   \<and> (addToCart exampleParse (exampleProduct ''B'' 2) ^^ Suc 2) emptySale
       = (addToCart exampleParse (exampleProduct ''B'' 2) ^^ 2) emptySale"
proof -
  have h1: "qty (exampleProduct ''B'' 2) = of_nat 2" by (simp add: exampleProduct_def)
  have h2: "(0::nat) < 2" by simp
  have h3: "\<forall>item\<in>set (cart emptySale). item_id item \<noteq> pid (exampleProduct ''B'' 2)"
    by (simp add: emptySale_def)
  have c: "cart emptySale = []" by (simp add: emptySale_def)
  have pr: "price (exampleProduct ''B'' 2) = ''$25.00''" by (simp add: exampleProduct_def)
  have v: "(case exampleParse (filter (\<lambda>c. is_digit c \<or> c = CHR ''.'' \<or> c = CHR ''-'') ''$25.00'') of
              None \<Rightarrow> 0 | Some v \<Rightarrow> v) = 25"
    by code_simp
  have f: "pid (exampleProduct ''B'' 2) = ''B''" "name (exampleProduct ''B'' 2) = ''Product B''"
    "sku (exampleProduct ''B'' 2) = ''SKU-B''"
    by (simp_all add: exampleProduct_def)
  have l: "exampleLine ''B'' 1 2 = \<lparr>item_id = ''B'', item_name = ''Product B'', item_price = 25,
      item_qty = 1, maxQty = 2, item_sku = ''SKU-B''\<rparr>"
    "exampleLine ''B'' 2 2 = \<lparr>item_id = ''B'', item_name = ''Product B'', item_price = 25,
      item_qty = 2, maxQty = 2, item_sku = ''SKU-B''\<rparr>"
    by (simp_all add: exampleLine_def)
  show ?thesis
    using addToCart_fills_to_stock [OF h1 h2 h3, of exampleParse] h1 c
    unfolding pr v f l by simp
qed

section \<open>The quantity invariant of the cart\<close>







text \<open>Line ids stay distinct whatever the catalog is.\<close>

lemma addToCart_ids:
  "distinct (map item_id (cart st)) \<Longrightarrow> distinct (map item_id (cart (addToCart pf p st)))"
proof (cases "find (\<lambda>item. item_id item = pid p) (cart st)")
  case None
  assume d: "distinct (map item_id (cart st))"
  have "\<forall>item\<in>set (cart st). item_id item \<noteq> pid p" using None by (rule find_NoneD)
  then have "pid p \<notin> item_id ` set (cart st)" by auto
  then show ?thesis using None d by (simp add: addToCart_def newCartItem_def)
next
  case (Some e)
  assume d: "distinct (map item_id (cart st))"
  have "map item_id (map (\<lambda>item. if item_id item = pid p
          then item\<lparr>item_qty := item_qty item + 1\<rparr> else item) (cart st)) = map item_id (cart st)"
    by (induction "cart st") auto
  then show ?thesis using Some d by (simp add: addToCart_def del: map_map)
qed

lemma reachable_distinct_ids:
  "reachable pf products st \<Longrightarrow> distinct (map item_id (cart st))"
proof (induction rule: reachable.induct)
  case (reach_init q b)
  show ?case by simp
next
  case (reach_add st p)
  then show ?case by (simp add: addToCart_ids)
next
  case (reach_change st delta i)
  have "map item_id (map (changeItem i delta) (cart st)) = map item_id (cart st)"
    by (simp add: changeItem_def Let_def comp_def)
  then show ?case using reach_change by (simp add: updateCartQty_def del: map_map)
next
  case (reach_remove st i)
  then show ?case by (simp add: removeFromCart_def distinct_map_filter)
next
  case (reach_type st q)
  then show ?case by simp
qed




section \<open>Committing a sale\<close>

lemma length_updateProducts: "length (updateProducts sold ps) = length ps"
  by (simp add: updateProducts_def)

lemma nth_updateProducts:
  "i < length ps \<Longrightarrow> updateProducts sold ps ! i =
     (case find (\<lambda>item. item_id item = pid (ps ! i)) sold of
        Some soldItem \<Rightarrow> (ps ! i)\<lparr>qty := max 0 (qty (ps ! i) - item_qty soldItem),
                              status := getStatus (max 0 (qty (ps ! i) - item_qty soldItem))\<rparr>
      | None \<Rightarrow> ps ! i)"
  by (simp add: updateProducts_def Let_def split: option.splits)

lemma app_products_handleProcessSale:
  "app_products (handleProcessSale ts u n sold app) = updateProducts sold (app_products app)"
  by (simp add: handleProcessSale_def Let_def)

lemma handleCompleteSale_nonempty:
  "cart st \<noteq> [] \<Longrightarrow> handleCompleteSale ts u n (st, app) =
     (Normal, st\<lparr>showSuccess := True, cart := []\<rparr>, handleProcessSale ts u n (cart st) app)"
  by (simp add: handleCompleteSale_def)

lemma example_commit_stock:
  "map qty (updateProducts (cart exampleSale) exampleCatalog) = [2, 0]"
  "map status (updateProducts (cart exampleSale) exampleCatalog) = [''Low Stock'', ''Out of Stock'']"
  by (simp_all add: updateProducts_def exampleSale_def exampleCatalog_def exampleLine_def
      exampleProduct_def getStatus_def)

text \<open>
  C1. Completing a sale on a cart with at least one line (line ids distinct, as they are in
  every reachable cart by \<open>reachable_distinct_ids\<close>) returns normally, raises the success
  banner, empties the cart and keeps the catalog's length; every catalog product whose id
  is that of a cart line gets the quantity \<open>max 0 (old - line quantity)\<close>, which is never
  negative, and the status derived from it. Lines of 3 and 2 units against stock 5 and 2 leave
  stock 2 and 0, the second product Out of Stock.
\<close>

theorem commit_decrements_stock:
  assumes "cart st \<noteq> []" and "distinct (map item_id (cart st))"
  shows "fst (handleCompleteSale ts u n (st, app)) = Normal
    \<and> showSuccess (fst (snd (handleCompleteSale ts u n (st, app))))
    \<and> cart (fst (snd (handleCompleteSale ts u n (st, app)))) = []
    \<and> length (app_products (snd (snd (handleCompleteSale ts u n (st, app)))))
        = length (app_products app)
    \<and> (\<forall>i<length (app_products app). \<forall>l\<in>set (cart st).
         item_id l = pid (app_products app ! i) \<longrightarrow>
           qty (app_products (snd (snd (handleCompleteSale ts u n (st, app)))) ! i)
             = max 0 (qty (app_products app ! i) - item_qty l)
         \<and> 0 \<le> qty (app_products (snd (snd (handleCompleteSale ts u n (st, app)))) ! i)
         \<and> status (app_products (snd (snd (handleCompleteSale ts u n (st, app)))) ! i)
             = getStatus (max 0 (qty (app_products app ! i) - item_qty l)))
    \<and> map qty (app_products (snd (snd (handleCompleteSale ts u n (exampleSale, exampleApp)))))
        = [2, 0]
    \<and> map status (app_products (snd (snd (handleCompleteSale ts u n (exampleSale, exampleApp)))))
        = [''Low Stock'', ''Out of Stock'']
    \<and> cart (fst (snd (handleCompleteSale ts u n (exampleSale, exampleApp)))) = []"
proof -
  have "\<forall>i<length (app_products app). \<forall>l\<in>set (cart st).
         item_id l = pid (app_products app ! i) \<longrightarrow>
           updateProducts (cart st) (app_products app) ! i =
             (app_products app ! i)\<lparr>qty := max 0 (qty (app_products app ! i) - item_qty l),
                 status := getStatus (max 0 (qty (app_products app ! i) - item_qty l))\<rparr>"
    using assms(2) by (auto simp: nth_updateProducts find_distinct_key)
  then have general: "fst (handleCompleteSale ts u n (st, app)) = Normal
    \<and> showSuccess (fst (snd (handleCompleteSale ts u n (st, app))))
    \<and> cart (fst (snd (handleCompleteSale ts u n (st, app)))) = []
    \<and> length (app_products (snd (snd (handleCompleteSale ts u n (st, app)))))
        = length (app_products app)
    \<and> (\<forall>i<length (app_products app). \<forall>l\<in>set (cart st).
         item_id l = pid (app_products app ! i) \<longrightarrow>
           qty (app_products (snd (snd (handleCompleteSale ts u n (st, app)))) ! i)
             = max 0 (qty (app_products app ! i) - item_qty l)
         \<and> 0 \<le> qty (app_products (snd (snd (handleCompleteSale ts u n (st, app)))) ! i)
         \<and> status (app_products (snd (snd (handleCompleteSale ts u n (st, app)))) ! i)
             = getStatus (max 0 (qty (app_products app ! i) - item_qty l)))"
    unfolding handleCompleteSale_nonempty [OF assms(1)]
    by (simp add: app_products_handleProcessSale length_updateProducts)
  have ne: "cart exampleSale \<noteq> []" by (simp add: exampleSale_def)
  have ps: "app_products exampleApp = exampleCatalog" by (simp add: exampleApp_def)
  have example: "map qty (app_products (snd (snd (handleCompleteSale ts u n (exampleSale, exampleApp)))))
        = [2, 0]
    \<and> map status (app_products (snd (snd (handleCompleteSale ts u n (exampleSale, exampleApp)))))
        = [''Low Stock'', ''Out of Stock'']
    \<and> cart (fst (snd (handleCompleteSale ts u n (exampleSale, exampleApp)))) = []"
    unfolding handleCompleteSale_nonempty [OF ne]
    by (simp add: app_products_handleProcessSale ps example_commit_stock)
  show ?thesis using general example by blast
qed

theorem commit_decrements_stock_witness:
  "cart exampleSale \<noteq> [] \<and> distinct (map item_id (cart exampleSale))
   \<and> fst (handleCompleteSale exampleToString ''John Doe'' 12345 (exampleSale, exampleApp)) = Normal
   \<and> showSuccess (fst (snd (handleCompleteSale exampleToString ''John Doe'' 12345
        (exampleSale, exampleApp))))
   \<and> cart (fst (snd (handleCompleteSale exampleToString ''John Doe'' 12345
        (exampleSale, exampleApp)))) = []
   \<and> qty (app_products (snd (snd (handleCompleteSale exampleToString ''John Doe'' 12345
             (exampleSale, exampleApp)))) ! 1) = 0"
proof -
  have h1: "cart exampleSale \<noteq> []" by (simp add: exampleSale_def)
  have h2: "distinct (map item_id (cart exampleSale))"
    by (simp add: exampleSale_def exampleLine_def)
  have i: "(1::nat) < length (app_products exampleApp)"
    by (simp add: exampleApp_def exampleCatalog_def)
  have l: "exampleLine ''B'' 2 2 \<in> set (cart exampleSale)" by (simp add: exampleSale_def)
  have m: "item_id (exampleLine ''B'' 2 2) = pid (app_products exampleApp ! 1)"
    by (simp add: exampleApp_def exampleCatalog_def exampleLine_def exampleProduct_def)
  have v: "max 0 (qty (app_products exampleApp ! 1) - item_qty (exampleLine ''B'' 2 2)) = 0"
    by (simp add: exampleApp_def exampleCatalog_def exampleLine_def exampleProduct_def)
  show ?thesis
    using commit_decrements_stock [OF h1 h2, of exampleToString "''John Doe''" 12345 exampleApp]
      h1 h2 i l m v
    by metis
qed

text \<open>
  C4, as stated, fails: on a cart with no lines \<^verbatim>\<open>handleCompleteSale\<close> does not fail with
  an \<^verbatim>\<open>EmptyCartError\<close>. It returns as a successful call does, throws nothing and records no
  error; the state is left as it was.
\<close>

theorem commit_empty_cart_no_error:
  "cart emptySale = []
   \<and> fst (handleCompleteSale exampleToString ''John Doe'' 12345 (emptySale, exampleApp)) = Normal
   \<and> fst (handleCompleteSale exampleToString ''John Doe'' 12345 (emptySale, exampleApp))
       \<noteq> Throw ''EmptyCartError''
   \<and> fst (handleCompleteSale exampleToString ''John Doe'' 12345 (emptySale, exampleApp))
       = fst (handleCompleteSale exampleToString ''John Doe'' 12345 (exampleSale, exampleApp))
   \<and> snd (handleCompleteSale exampleToString ''John Doe'' 12345 (emptySale, exampleApp))
       = (emptySale, exampleApp)"
  by (simp add: handleCompleteSale_def emptySale_def exampleSale_def)

text \<open>
  C4, amended. Completing a sale on a cart with no lines is a silent no-op: the call returns
  normally, \<^verbatim>\<open>onProcessSale\<close> is not called, and the cart state and the whole application
  state (catalog with every quantity and status, notifications, activity log) are unchanged.
\<close>

theorem commit_empty_cart_is_noop:
  assumes "cart st = []"
  shows "handleCompleteSale ts u n (st, app) = (Normal, st, app)
       \<and> app_products (snd (snd (handleCompleteSale ts u n (st, app)))) = app_products app"
  using assms by (simp add: handleCompleteSale_def)

theorem commit_empty_cart_is_noop_witness:
  "cart emptySale = []
   \<and> handleCompleteSale exampleToString ''John Doe'' 12345 (emptySale, exampleApp)
       = (Normal, emptySale, exampleApp)"
proof -
  have h: "cart emptySale = []" by (simp add: emptySale_def)
  show ?thesis
    using commit_empty_cart_is_noop [OF h, of exampleToString "''John Doe''" 12345 exampleApp] h
    by simp
qed

section \<open>Alerts raised by a sale\<close>

lemma activities_handleProcessSale:
  "app_activities (handleProcessSale ts u n sold app) =
     \<lparr>user = u, action = ''fulfilled order'',
      target = ''#'' @ string_of_nat n @ '' (''
                 @ ts (foldl (\<lambda>acc item. acc + item_qty item) 0 sold) @ '' items)'',
      atype = ''sale''\<rparr>
     # rev (map fst (saleAlerts ts (app_products app) sold)) @ app_activities app"
  by (simp add: handleProcessSale_def Let_def logActivity_def)

lemma notifications_handleProcessSale:
  "app_notifications (handleProcessSale ts u n sold app) =
     map snd (saleAlerts ts (app_products app) sold)
     @ \<lparr>n_title = ''Sale Completed'',
         n_message = ''Sale registered for ''
                 @ ts (foldl (\<lambda>acc item. acc + item_qty item) 0 sold) @ '' items.'',
         n_time = ''Just now'', n_read = False, n_type = ''order''\<rparr>
     # app_notifications app"
  by (simp add: handleProcessSale_def Let_def)

lemma saleAlert_in_saleAlerts:
  "l \<in> set sold \<Longrightarrow> saleAlert ts ps l = Some a \<Longrightarrow> a \<in> set (saleAlerts ts ps sold)"
  unfolding saleAlerts_def by (induction sold) (auto split: option.splits)

lemma find_updateProducts:
  assumes d: "distinct (map item_id sold)" and l: "l \<in> set sold"
    and f: "find (\<lambda>p. pid p = item_id l) ps = Some p"
  shows "find (\<lambda>p. pid p = item_id l) (updateProducts sold ps) =
     Some (p\<lparr>qty := max 0 (qty p - item_qty l),
             status := getStatus (max 0 (qty p - item_qty l))\<rparr>)"
proof -
  let ?g = "\<lambda>p. case find (\<lambda>item. item_id item = pid p) sold of
                Some soldItem \<Rightarrow>
                  (let newQty = max 0 (qty p - item_qty soldItem);
                       newStatus = getStatus newQty
                   in p\<lparr>qty := newQty, status := newStatus\<rparr>)
              | None \<Rightarrow> p"
  have pres: "\<And>x. (pid (?g x) = item_id l) = (pid x = item_id l)"
    by (simp add: Let_def split: option.splits)
  have "pid p = item_id l" using f by (auto dest: find_SomeD)
  then have "find (\<lambda>item. item_id item = pid p) sold = Some l"
    using d l by (simp add: find_distinct_key)
  then have "?g p = p\<lparr>qty := max 0 (qty p - item_qty l),
       status := getStatus (max 0 (qty p - item_qty l))\<rparr>"
    by (simp add: Let_def)
  moreover have "find (\<lambda>p. pid p = item_id l) (map ?g ps)
      = map_option ?g (find (\<lambda>p. pid p = item_id l) ps)"
    by (rule find_map_same) (rule pres)
  ultimately show ?thesis using f by (simp add: updateProducts_def)
qed

text \<open>
  C5. Let \<open>l\<close> be a line of the committed cart and \<open>p\<close> the catalog product it refers to, with
  quantity \<open>qty p\<close> before and \<open>max 0 (qty p - item_qty l)\<close> after the sale (the quantity the
  catalog holds for it afterwards, when line ids are distinct). The sale puts the sale entry
  and, behind it, the alert activities in front of the old activity log, and the alert
  notifications followed by the Sale Completed notification in front of the old notifications.
  If the quantity went from at least 40 to below 40 and is still positive, the alerts hold the
  Low Stock signal for \<open>p\<close>: the activity \<^verbatim>\<open>Low stock warning for\<close> with \<open>p\<close>'s name as target
  and the notification titled \<^verbatim>\<open>Low Stock Alert\<close> that names \<open>p\<close> and the remaining quantity.
  If it went from a positive value to 0, they hold the Out of Stock signal for \<open>p\<close>: the
  activity \<^verbatim>\<open>Stock depleted for\<close> and the notification titled \<^verbatim>\<open>Out of Stock Alert\<close>.
  In both cases the activity is in the activity log and the notification among the
  notifications after the sale.
\<close>

theorem sale_raises_stock_alerts:
  assumes "l \<in> set (cart st)"
    and "find (\<lambda>p. pid p = item_id l) (app_products app) = Some p"
  shows "app_activities (snd (snd (handleCompleteSale ts u n (st, app)))) =
           \<lparr>user = u, action = ''fulfilled order'',
            target = ''#'' @ string_of_nat n @ '' (''
                       @ ts (foldl (\<lambda>acc item. acc + item_qty item) 0 (cart st)) @ '' items)'',
            atype = ''sale''\<rparr>
           # rev (map fst (saleAlerts ts (app_products app) (cart st))) @ app_activities app
    \<and> app_notifications (snd (snd (handleCompleteSale ts u n (st, app)))) =
           map snd (saleAlerts ts (app_products app) (cart st))
           @ \<lparr>n_title = ''Sale Completed'',
               n_message = ''Sale registered for ''
                       @ ts (foldl (\<lambda>acc item. acc + item_qty item) 0 (cart st)) @ '' items.'',
               n_time = ''Just now'', n_read = False, n_type = ''order''\<rparr>
           # app_notifications app
    \<and> (40 \<le> qty p \<and> max 0 (qty p - item_qty l) < 40 \<and> 0 < max 0 (qty p - item_qty l) \<longrightarrow>
          (\<lparr>user = ''System Alert'', action = ''Low stock warning for'',
            target = name p, atype = ''alert''\<rparr>,
           \<lparr>n_title = ''Low Stock Alert'',
            n_message = name p @ '' is running low ('' @ ts (max 0 (qty p - item_qty l))
                        @ '' units remaining).'',
            n_time = ''Just now'', n_read = False, n_type = ''alert''\<rparr>)
            \<in> set (saleAlerts ts (app_products app) (cart st))
          \<and> \<lparr>user = ''System Alert'', action = ''Low stock warning for'',
             target = name p, atype = ''alert''\<rparr>
            \<in> set (app_activities (snd (snd (handleCompleteSale ts u n (st, app)))))
          \<and> \<lparr>n_title = ''Low Stock Alert'',
             n_message = name p @ '' is running low ('' @ ts (max 0 (qty p - item_qty l))
                         @ '' units remaining).'',
             n_time = ''Just now'', n_read = False, n_type = ''alert''\<rparr>
            \<in> set (app_notifications (snd (snd (handleCompleteSale ts u n (st, app))))))
    \<and> (0 < qty p \<and> max 0 (qty p - item_qty l) = 0 \<longrightarrow>
          (\<lparr>user = ''System Alert'', action = ''Stock depleted for'',
            target = name p, atype = ''alert''\<rparr>,
           \<lparr>n_title = ''Out of Stock Alert'',
            n_message = name p @ '' is now out of stock.'',
            n_time = ''Just now'', n_read = False, n_type = ''alert''\<rparr>)
            \<in> set (saleAlerts ts (app_products app) (cart st))
          \<and> \<lparr>user = ''System Alert'', action = ''Stock depleted for'',
             target = name p, atype = ''alert''\<rparr>
            \<in> set (app_activities (snd (snd (handleCompleteSale ts u n (st, app)))))
          \<and> \<lparr>n_title = ''Out of Stock Alert'',
             n_message = name p @ '' is now out of stock.'',
             n_time = ''Just now'', n_read = False, n_type = ''alert''\<rparr>
            \<in> set (app_notifications (snd (snd (handleCompleteSale ts u n (st, app))))))
    \<and> (distinct (map item_id (cart st)) \<longrightarrow>
          find (\<lambda>p. pid p = item_id l)
               (app_products (snd (snd (handleCompleteSale ts u n (st, app))))) =
            Some (p\<lparr>qty := max 0 (qty p - item_qty l),
                    status := getStatus (max 0 (qty p - item_qty l))\<rparr>))"
proof -
  have ne: "cart st \<noteq> []" using assms(1) by auto
  have h: "snd (snd (handleCompleteSale ts u n (st, app))) = handleProcessSale ts u n (cart st) app"
    by (simp add: handleCompleteSale_nonempty [OF ne])
  have low: "40 \<le> qty p \<and> max 0 (qty p - item_qty l) < 40 \<and> 0 < max 0 (qty p - item_qty l) \<longrightarrow>
          saleAlert ts (app_products app) l
            = Some (lowStockAlert ts p (max 0 (qty p - item_qty l)))"
    using assms(2) by (simp add: saleAlert_def Let_def)
  have out: "0 < qty p \<and> max 0 (qty p - item_qty l) = 0 \<longrightarrow>
          saleAlert ts (app_products app) l = Some (depletedAlert p)"
    using assms(2) by (simp add: saleAlert_def Let_def)
  have mem: "x \<in> set (saleAlerts ts (app_products app) (cart st)) \<Longrightarrow>
      fst x \<in> set (app_activities (handleProcessSale ts u n (cart st) app))
      \<and> snd x \<in> set (app_notifications (handleProcessSale ts u n (cart st) app))" for x
    by (simp add: activities_handleProcessSale notifications_handleProcessSale)
  have lowm: "40 \<le> qty p \<and> max 0 (qty p - item_qty l) < 40 \<and> 0 < max 0 (qty p - item_qty l) \<longrightarrow>
      lowStockAlert ts p (max 0 (qty p - item_qty l))
        \<in> set (saleAlerts ts (app_products app) (cart st))"
    using low saleAlert_in_saleAlerts [OF assms(1)] by blast
  have outm: "0 < qty p \<and> max 0 (qty p - item_qty l) = 0 \<longrightarrow>
      depletedAlert p \<in> set (saleAlerts ts (app_products app) (cart st))"
    using out saleAlert_in_saleAlerts [OF assms(1)] by blast
  show ?thesis unfolding h
    using lowm outm mem [of "lowStockAlert ts p (max 0 (qty p - item_qty l))"]
      mem [of "depletedAlert p"] find_updateProducts [OF _ assms]
    by (simp add: app_products_handleProcessSale activities_handleProcessSale
        notifications_handleProcessSale lowStockAlert_def depletedAlert_def)
qed

theorem sale_raises_stock_alerts_witness:
  "exampleLine ''B'' 2 2 \<in> set (cart exampleSale)
   \<and> find (\<lambda>p. pid p = item_id (exampleLine ''B'' 2 2)) (app_products exampleApp)
       = Some (exampleProduct ''B'' 2)
   \<and> 0 < qty (exampleProduct ''B'' 2)
   \<and> max 0 (qty (exampleProduct ''B'' 2) - item_qty (exampleLine ''B'' 2 2)) = 0
   \<and> saleAlerts exampleToString (app_products exampleApp) (cart exampleSale) =
        [(\<lparr>user = ''System Alert'', action = ''Stock depleted for'',
           target = ''Product B'', atype = ''alert''\<rparr>,
          \<lparr>n_title = ''Out of Stock Alert'', n_message = ''Product B is now out of stock.'',
           n_time = ''Just now'', n_read = False, n_type = ''alert''\<rparr>)]
   \<and> exampleLine ''C'' 10 45 \<in> set (cart lowSale)
   \<and> find (\<lambda>p. pid p = item_id (exampleLine ''C'' 10 45)) (app_products lowApp)
       = Some (exampleProduct ''C'' 45)
   \<and> max 0 (qty (exampleProduct ''C'' 45) - item_qty (exampleLine ''C'' 10 45)) = 35
   \<and> (\<lparr>user = ''System Alert'', action = ''Low stock warning for'',
        target = ''Product C'', atype = ''alert''\<rparr>,
       \<lparr>n_title = ''Low Stock Alert'',
        n_message = ''Product C is running low (35 units remaining).'',
        n_time = ''Just now'', n_read = False, n_type = ''alert''\<rparr>)
        \<in> set (saleAlerts exampleToString (app_products lowApp) (cart lowSale))
   \<and> map action (app_activities (snd (snd (handleCompleteSale exampleToString ''John Doe'' 12345
        (lowSale, lowApp))))) = [''fulfilled order'', ''Low stock warning for'']"
proof -
  have h1: "exampleLine ''B'' 2 2 \<in> set (cart exampleSale)" by (simp add: exampleSale_def)
  have h2: "find (\<lambda>p. pid p = item_id (exampleLine ''B'' 2 2)) (app_products exampleApp)
       = Some (exampleProduct ''B'' 2)"
    by (simp add: exampleApp_def exampleCatalog_def exampleLine_def exampleProduct_def)
  have h3: "0 < qty (exampleProduct ''B'' 2)" by (simp add: exampleProduct_def)
  have h4: "max 0 (qty (exampleProduct ''B'' 2) - item_qty (exampleLine ''B'' 2 2)) = 0"
    by (simp add: exampleProduct_def exampleLine_def)
  have e: "saleAlerts exampleToString (app_products exampleApp) (cart exampleSale) =
        [(\<lparr>user = ''System Alert'', action = ''Stock depleted for'',
           target = ''Product B'', atype = ''alert''\<rparr>,
          \<lparr>n_title = ''Out of Stock Alert'', n_message = ''Product B is now out of stock.'',
           n_time = ''Just now'', n_read = False, n_type = ''alert''\<rparr>)]"
    by code_simp
  have k1: "exampleLine ''C'' 10 45 \<in> set (cart lowSale)" by (simp add: lowSale_def)
  have k2: "find (\<lambda>p. pid p = item_id (exampleLine ''C'' 10 45)) (app_products lowApp)
       = Some (exampleProduct ''C'' 45)"
    by (simp add: lowApp_def exampleLine_def exampleProduct_def)
  have k3: "max 0 (qty (exampleProduct ''C'' 45) - item_qty (exampleLine ''C'' 10 45)) = 35"
    by (simp add: exampleProduct_def exampleLine_def)
  have k4: "40 \<le> qty (exampleProduct ''C'' 45)" by (simp add: exampleProduct_def)
  have n: "name (exampleProduct ''C'' 45) = ''Product C''" by (simp add: exampleProduct_def)
  have t: "exampleToString 35 = ''35''" by code_simp
  have al: "saleAlerts exampleToString (app_products lowApp) (cart lowSale) =
      [(\<lparr>user = ''System Alert'', action = ''Low stock warning for'',
         target = ''Product C'', atype = ''alert''\<rparr>,
        \<lparr>n_title = ''Low Stock Alert'',
         n_message = ''Product C is running low (35 units remaining).'',
         n_time = ''Just now'', n_read = False, n_type = ''alert''\<rparr>)]"
    by code_simp
  have old: "app_activities lowApp = []" by (simp add: lowApp_def)
  from sale_raises_stock_alerts [OF k1 k2, of exampleToString "''John Doe''" 12345]
  have a: "map action (app_activities (snd (snd (handleCompleteSale exampleToString ''John Doe''
        12345 (lowSale, lowApp))))) = [''fulfilled order'', ''Low stock warning for'']"
    unfolding al old by simp
  from sale_raises_stock_alerts [OF k1 k2, of exampleToString "''John Doe''" 12345] k3 k4
  have low: "(\<lparr>user = ''System Alert'', action = ''Low stock warning for'',
        target = ''Product C'', atype = ''alert''\<rparr>,
       \<lparr>n_title = ''Low Stock Alert'',
        n_message = ''Product C is running low (35 units remaining).'',
        n_time = ''Just now'', n_read = False, n_type = ''alert''\<rparr>)
        \<in> set (saleAlerts exampleToString (app_products lowApp) (cart lowSale))"
    unfolding n by (simp add: t)
  show ?thesis using h1 h2 h3 h4 e k1 k2 k3 low a by blast
qed

section \<open>What a sale leaves alone\<close>

text \<open>
  C10. \<^verbatim>\<open>handleProcessSale\<close> keeps the length of the catalog and the id at every position.
  At every position the product differs from the old one at most in quantity and status, so
  name, SKU, category, price, date and image are the old ones; a product whose id is the id of no
  sold line is the old product, unchanged.
\<close>

theorem sale_changes_only_sold_quantities:
  "length (app_products (handleProcessSale ts u n sold app)) = length (app_products app)
   \<and> map pid (app_products (handleProcessSale ts u n sold app)) = map pid (app_products app)
   \<and> (\<forall>i<length (app_products app).
        (app_products (handleProcessSale ts u n sold app) ! i)
           \<lparr>qty := qty (app_products app ! i), status := status (app_products app ! i)\<rparr>
          = app_products app ! i
        \<and> ((\<forall>l\<in>set sold. item_id l \<noteq> pid (app_products app ! i)) \<longrightarrow>
             app_products (handleProcessSale ts u n sold app) ! i = app_products app ! i))"
proof -
  have 1: "length (updateProducts sold (app_products app)) = length (app_products app)"
    by (rule length_updateProducts)
  have 2: "map pid (updateProducts sold (app_products app)) = map pid (app_products app)"
    by (rule nth_equalityI)
       (auto simp: nth_updateProducts length_updateProducts split: option.splits)
  have 3: "\<forall>i<length (app_products app).
        (updateProducts sold (app_products app) ! i)
           \<lparr>qty := qty (app_products app ! i), status := status (app_products app ! i)\<rparr>
          = app_products app ! i
        \<and> ((\<forall>l\<in>set sold. item_id l \<noteq> pid (app_products app ! i)) \<longrightarrow>
             updateProducts sold (app_products app) ! i = app_products app ! i)"
    by (auto simp: nth_updateProducts find_NoneI split: option.splits)
  show ?thesis unfolding app_products_handleProcessSale using 1 2 3 by blast
qed

theorem sale_changes_only_sold_quantities_witness:
  "(0::nat) < length (app_products exampleApp)
   \<and> item_id (exampleLine ''B'' 2 2) \<noteq> pid (app_products exampleApp ! 0)
   \<and> app_products (handleProcessSale exampleToString ''John Doe'' 12345
        [exampleLine ''B'' 2 2] exampleApp) ! 0
       = exampleProduct ''A'' 5
   \<and> name (app_products (handleProcessSale exampleToString ''John Doe'' 12345
        [exampleLine ''B'' 2 2] exampleApp) ! 1)
       = name (exampleProduct ''B'' 2)"
proof -
  have h1: "(0::nat) < length (app_products exampleApp)"
    by (simp add: exampleApp_def exampleCatalog_def)
  have h2: "\<forall>l\<in>set [exampleLine ''B'' 2 2]. item_id l \<noteq> pid (app_products exampleApp ! 0)"
    by (simp add: exampleApp_def exampleCatalog_def exampleLine_def exampleProduct_def)
  have h3: "app_products exampleApp ! 0 = exampleProduct ''A'' 5"
    by (simp add: exampleApp_def exampleCatalog_def)
  have h4: "(1::nat) < length (app_products exampleApp)"
    by (simp add: exampleApp_def exampleCatalog_def)
  have h5: "app_products exampleApp ! 1 = exampleProduct ''B'' 2"
    by (simp add: exampleApp_def exampleCatalog_def)
  let ?ps = "app_products (handleProcessSale exampleToString ''John Doe'' 12345
      [exampleLine ''B'' 2 2] exampleApp)"
  from sale_changes_only_sold_quantities
    [of exampleToString "''John Doe''" 12345 "[exampleLine ''B'' 2 2]" exampleApp]
  have a: "?ps ! 0 = app_products exampleApp ! 0"
    and b: "(?ps ! 1)\<lparr>qty := qty (app_products exampleApp ! 1),
                      status := status (app_products exampleApp ! 1)\<rparr> = app_products exampleApp ! 1"
    using h1 h2 h4 by blast+
  have "name ((?ps ! 1)\<lparr>qty := qty (app_products exampleApp ! 1),
                      status := status (app_products exampleApp ! 1)\<rparr>)
        = name (app_products exampleApp ! 1)"
    using b by (rule arg_cong)
  then have "name (?ps ! 1) = name (exampleProduct ''B'' 2)" unfolding h5 by simp
  moreover have "item_id (exampleLine ''B'' 2 2) \<noteq> pid (app_products exampleApp ! 0)"
    using h2 by simp
  ultimately show ?thesis using a h1 h3 by simp
qed

section \<open>The sort of the listing\<close>

lemma mset_insert_cmp: "mset (insert_cmp cmp x ys) = add_mset x (mset ys)"
  by (induction ys) auto

lemma mset_sort_cmp: "mset (sort_cmp cmp xs) = mset xs"
  unfolding sort_cmp_def by (induction xs) (auto simp: mset_insert_cmp)

lemma set_sort_cmp: "set (sort_cmp cmp xs) = set xs"
  using mset_sort_cmp [of cmp xs] by (metis set_mset_mset)

lemma filter_insert_cmp:
  assumes "\<And>y. y \<in> set ys \<Longrightarrow> P x \<Longrightarrow> P y \<Longrightarrow> cmp x y \<le> 0"
  shows "filter P (insert_cmp cmp x ys) = (if P x then x # filter P ys else filter P ys)"
  using assms by (induction ys) auto

lemma filter_sort_cmp:
  assumes "\<And>x y. x \<in> set xs \<Longrightarrow> y \<in> set xs \<Longrightarrow> P x \<Longrightarrow> P y \<Longrightarrow> cmp x y \<le> 0"
  shows "filter P (sort_cmp cmp xs) = filter P xs"
  using assms
proof (induction xs)
  case Nil
  show ?case by (simp add: sort_cmp_def)
next
  case (Cons x xs)
  have ih: "filter P (sort_cmp cmp xs) = filter P xs"
    using Cons by simp
  have "filter P (insert_cmp cmp x (sort_cmp cmp xs)) =
      (if P x then x # filter P (sort_cmp cmp xs) else filter P (sort_cmp cmp xs))"
    by (rule filter_insert_cmp) (use Cons.prems in \<open>simp add: set_sort_cmp\<close>)
  then show ?case using ih by (simp add: sort_cmp_def)
qed

lemma sorted_insert_cmp:
  assumes tot: "\<And>a b. a \<in> S \<Longrightarrow> b \<in> S \<Longrightarrow> cmp a b \<le> 0 \<or> cmp b a \<le> 0"
    and tr: "\<And>a b c. a \<in> S \<Longrightarrow> b \<in> S \<Longrightarrow> c \<in> S \<Longrightarrow> cmp a b \<le> 0 \<Longrightarrow> cmp b c \<le> 0 \<Longrightarrow> cmp a c \<le> 0"
    and "x \<in> S" and "set ys \<subseteq> S" and "sorted_wrt (\<lambda>a b. cmp a b \<le> 0) ys"
  shows "sorted_wrt (\<lambda>a b. cmp a b \<le> 0) (insert_cmp cmp x ys)"
  using assms(3-)
proof (induction ys)
  case Nil
  show ?case by simp
next
  case (Cons y ys)
  show ?case
  proof (cases "cmp x y \<le> 0")
    case True
    have "\<forall>z\<in>set ys. cmp x z \<le> 0"
    proof
      fix z assume z: "z \<in> set ys"
      then have "cmp y z \<le> 0" using Cons.prems by simp
      then show "cmp x z \<le> 0" using tr [of x y z] True Cons.prems z by auto
    qed
    then show ?thesis using True Cons.prems by simp
  next
    case False
    then have yx: "cmp y x \<le> 0" using tot [of x y] Cons.prems by auto
    have "sorted_wrt (\<lambda>a b. cmp a b \<le> 0) (insert_cmp cmp x ys)"
      using Cons by simp
    moreover have "\<forall>z\<in>set (insert_cmp cmp x ys). cmp y z \<le> 0"
    proof -
      have "set (insert_cmp cmp x ys) = insert x (set ys)"
        using mset_insert_cmp [of cmp x ys] by (metis set_mset_mset set_mset_add_mset_insert)
      then show ?thesis using yx Cons.prems by auto
    qed
    ultimately show ?thesis using False by simp
  qed
qed

lemma sorted_sort_cmp:
  assumes tot: "\<And>a b. a \<in> set xs \<Longrightarrow> b \<in> set xs \<Longrightarrow> cmp a b \<le> 0 \<or> cmp b a \<le> 0"
    and tr: "\<And>a b c. a \<in> set xs \<Longrightarrow> b \<in> set xs \<Longrightarrow> c \<in> set xs \<Longrightarrow>
               cmp a b \<le> 0 \<Longrightarrow> cmp b c \<le> 0 \<Longrightarrow> cmp a c \<le> 0"
  shows "sorted_wrt (\<lambda>a b. cmp a b \<le> 0) (sort_cmp cmp xs)"
proof -
  have "set ys \<subseteq> set xs \<Longrightarrow> sorted_wrt (\<lambda>a b. cmp a b \<le> 0) (sort_cmp cmp ys)" for ys
  proof (induction ys)
    case Nil
    show ?case by (simp add: sort_cmp_def)
  next
    case (Cons y ys)
    have "sorted_wrt (\<lambda>a b. cmp a b \<le> 0) (insert_cmp cmp y (sort_cmp cmp ys))"
    proof (rule sorted_insert_cmp [where S = "set xs"])
      show "y \<in> set xs" using Cons.prems by simp
      show "set (sort_cmp cmp ys) \<subseteq> set xs" using Cons.prems by (simp add: set_sort_cmp)
      show "sorted_wrt (\<lambda>a b. cmp a b \<le> 0) (sort_cmp cmp ys)" using Cons by simp
    qed (use tot tr in blast)+
    then show ?case by (simp add: sort_cmp_def)
  qed
  then show ?thesis by simp
qed

text \<open>Insertion sort keeps the promise of the standard.\<close>

lemma conforming_sort_cmp: "conforming_sort sort_cmp"
  unfolding conforming_sort_def
proof (intro allI conjI impI ballI)
  fix cmp :: "'a \<Rightarrow> 'a \<Rightarrow> int" and xs
  show "mset (sort_cmp cmp xs) = mset xs" by (rule mset_sort_cmp)
next
  fix cmp :: "'a \<Rightarrow> 'a \<Rightarrow> int" and xs
  assume c: "consistent cmp xs"
  have sym: "(cmp a b < 0) = (0 < cmp b a)" if "a \<in> set xs" "b \<in> set xs" for a b
    using c that by (simp add: consistent_def)
  have tr: "cmp a d \<le> 0" if "a \<in> set xs" "b \<in> set xs" "d \<in> set xs" "cmp a b \<le> 0" "cmp b d \<le> 0"
    for a b d
    using c that unfolding consistent_def by blast
  show "sorted_wrt (\<lambda>a b. cmp a b \<le> 0) (sort_cmp cmp xs)"
  proof (rule sorted_sort_cmp)
    fix a b assume "a \<in> set xs" "b \<in> set xs"
    then show "cmp a b \<le> 0 \<or> cmp b a \<le> 0" using sym [of a b] sym [of b a] by linarith
  next
    fix a b d
    assume "a \<in> set xs" "b \<in> set xs" "d \<in> set xs" "cmp a b \<le> 0" "cmp b d \<le> 0"
    then show "cmp a d \<le> 0" by (rule tr)
  qed
next
  fix cmp :: "'a \<Rightarrow> 'a \<Rightarrow> int" and xs and a
  assume c: "consistent cmp xs" and a: "a \<in> set xs"
  have sym: "(cmp x y < 0) = (0 < cmp y x)" if "x \<in> set xs" "y \<in> set xs" for x y
    using c that by (simp add: consistent_def)
  have tr: "cmp x z \<le> 0" if "x \<in> set xs" "y \<in> set xs" "z \<in> set xs" "cmp x y \<le> 0" "cmp y z \<le> 0"
    for x y z
    using c that unfolding consistent_def by blast
  show "filter (\<lambda>b. cmp a b = 0) (sort_cmp cmp xs) = filter (\<lambda>b. cmp a b = 0) xs"
  proof (rule filter_sort_cmp)
    fix x y assume xy: "x \<in> set xs" "y \<in> set xs" "cmp a x = 0" "cmp a y = 0"
    have "\<not> 0 < cmp x a" using sym [of a x] xy a by simp
    then have "cmp x a \<le> 0" by simp
    moreover have "cmp a y \<le> 0" using xy by simp
    ultimately show "cmp x y \<le> 0" using tr [of x a y] xy a by simp
  qed
qed

lemma js_lt_irrefl: "\<not> js_lt v v"
  by (cases v) auto

lemma js_lt_asym: "js_lt v w \<Longrightarrow> \<not> js_lt w v"
  by (cases v; cases w) auto

lemma compareFn_same_value:
  "sortValue pf gt k a = sortValue pf gt k b \<Longrightarrow> compareFn pf gt k d a b = 0"
  by (simp add: compareFn_def Let_def js_lt_irrefl)

lemma compareFn_sign: "(compareFn pf gt k d a b < 0) = (0 < compareFn pf gt k d b a)"
  by (auto simp: compareFn_def Let_def dest: js_lt_asym)

lemma compareFn_le_iff:
  "compareFn pf gt k d a b \<le> 0 \<longleftrightarrow>
     (if d = Asc then \<not> js_lt (sortValue pf gt k b) (sortValue pf gt k a)
                      \<or> js_lt (sortValue pf gt k a) (sortValue pf gt k b)
      else \<not> js_lt (sortValue pf gt k a) (sortValue pf gt k b))"
  by (auto simp: compareFn_def Let_def dest: js_lt_asym)

lemma js_le_trans:
  assumes "validKey gt k a" "validKey gt k b" "validKey gt k c"
    and "\<not> js_lt (sortValue pf gt k b) (sortValue pf gt k a)"
    and "\<not> js_lt (sortValue pf gt k c) (sortValue pf gt k b)"
  shows "\<not> js_lt (sortValue pf gt k c) (sortValue pf gt k a)"
  using assms by (cases k) (auto simp: sortValue_def validKey_def)

lemma compareFn_trans:
  assumes "validKey gt k a" "validKey gt k b" "validKey gt k c"
    and "compareFn pf gt k d a b \<le> 0" and "compareFn pf gt k d b c \<le> 0"
  shows "compareFn pf gt k d a c \<le> 0"
  using assms js_le_trans [of gt k a b c pf] js_le_trans [of gt k c b a pf]
  by (auto simp: compareFn_le_iff dest: js_lt_asym split: if_splits)

text \<open>The comparator of the listing is consistent on rows whose keys are valid.\<close>

lemma compareFn_consistent:
  assumes "\<forall>a\<in>set xs. validKey gt k a"
  shows "consistent (compareFn pf gt k d) xs"
  unfolding consistent_def
proof (intro conjI ballI impI)
  fix a b
  show "(compareFn pf gt k d a b < 0) = (0 < compareFn pf gt k d b a)"
    by (rule compareFn_sign)
next
  fix a b c
  assume "a \<in> set xs" "b \<in> set xs" "c \<in> set xs"
    and "compareFn pf gt k d a b \<le> 0 \<and> compareFn pf gt k d b c \<le> 0"
  then show "compareFn pf gt k d a c \<le> 0"
    using assms compareFn_trans [of gt k a b c pf d] by simp
qed

lemma matchesFilter_sort [simp]:
  "matchesFilter (st\<lparr>sortKey := k, sortDirection := d\<rparr>) = matchesFilter st"
  by (rule ext) (simp add: matchesFilter_def)

lemma price_le_iff:
  "compareFn pf gt SortPrice d a b \<le> 0 \<longleftrightarrow>
     (if d = Asc then priceValue pf a \<le> priceValue pf b else priceValue pf b \<le> priceValue pf a)"
  by (auto simp: compareFn_def Let_def sortValue_def)

text \<open>
  With any sort that keeps the promise of the standard, and valid keys on the rows that pass the
  filter, the listing holds those rows ordered by the comparator, and rows that share a value of
  the sort key stand in catalog order.
\<close>

lemma listing_stable_for_valid_keys:
  assumes srt: "conforming_sort srt"
    and v: "\<forall>a\<in>set (filter (matchesFilter st) products). validKey gt (sortKey st) a"
  shows "mset (processedProducts srt pf gt products st) = mset (filter (matchesFilter st) products)"
    and "sorted_wrt (\<lambda>a b. compareFn pf gt (sortKey st) (sortDirection st) a b \<le> 0)
           (processedProducts srt pf gt products st)"
    and "filter (\<lambda>a. sortValue pf gt (sortKey st) a = w) (processedProducts srt pf gt products st)
           = filter (\<lambda>a. sortValue pf gt (sortKey st) a = w) (filter (matchesFilter st) products)"
proof -
  let ?cmp = "compareFn pf gt (sortKey st) (sortDirection st)"
  let ?xs = "filter (matchesFilter st) products"
  let ?P = "\<lambda>a. sortValue pf gt (sortKey st) a = w"
  have c: "consistent ?cmp ?xs" by (rule compareFn_consistent [OF v])
  have m: "mset (srt ?cmp ?xs) = mset ?xs"
    using srt unfolding conforming_sort_def by blast
  show "mset (processedProducts srt pf gt products st) = mset ?xs"
    using m by (simp add: processedProducts_def)
  show "sorted_wrt (\<lambda>a b. ?cmp a b \<le> 0) (processedProducts srt pf gt products st)"
    using srt c unfolding conforming_sort_def processedProducts_def by blast
  have st: "filter (\<lambda>b. ?cmp a b = 0) (srt ?cmp ?xs) = filter (\<lambda>b. ?cmp a b = 0) ?xs"
    if "a \<in> set ?xs" for a
    using srt c that unfolding conforming_sort_def by blast
  have s: "set (srt ?cmp ?xs) = set ?xs" using m by (metis set_mset_mset)
  show "filter ?P (processedProducts srt pf gt products st) = filter ?P ?xs"
  proof (cases "\<exists>a\<in>set ?xs. ?P a")
    case True
    then obtain a where a: "a \<in> set ?xs" "?P a" by blast
    have imp: "?P b \<Longrightarrow> ?cmp a b = 0" for b
      using a(2) by (simp add: compareFn_same_value)
    have "filter ?P ys = filter ?P (filter (\<lambda>b. ?cmp a b = 0) ys)" for ys
      using imp by (induction ys) auto
    then have "filter ?P (srt ?cmp ?xs) = filter ?P (filter (\<lambda>b. ?cmp a b = 0) (srt ?cmp ?xs))"
      and "filter ?P ?xs = filter ?P (filter (\<lambda>b. ?cmp a b = 0) ?xs)"
      by blast+
    then show ?thesis using st [OF a(1)] by (simp add: processedProducts_def)
  next
    case False
    then have "filter ?P ?xs = []" by (simp add: filter_empty_conv)
    moreover have "filter ?P (srt ?cmp ?xs) = []"
      using False s by (simp add: filter_empty_conv)
    ultimately show ?thesis by (simp add: processedProducts_def)
  qed
qed

text \<open>
  For the price key every row is valid: the ascending listing is ordered by rising price, the
  descending one by falling price, and for every price the rows with that price appear in the
  same order in both.
\<close>

lemma price_sort_stable:
  assumes srt: "conforming_sort srt"
  shows "sorted_wrt (\<lambda>a b. priceValue pf a \<le> priceValue pf b)
        (processedProducts srt pf gt products (st\<lparr>sortKey := SortPrice, sortDirection := Asc\<rparr>))"
    and "sorted_wrt (\<lambda>a b. priceValue pf b \<le> priceValue pf a)
        (processedProducts srt pf gt products (st\<lparr>sortKey := SortPrice, sortDirection := Desc\<rparr>))"
    and "filter (\<lambda>a. priceValue pf a = w)
              (processedProducts srt pf gt products (st\<lparr>sortKey := SortPrice, sortDirection := Desc\<rparr>))
          = filter (\<lambda>a. priceValue pf a = w)
              (processedProducts srt pf gt products (st\<lparr>sortKey := SortPrice, sortDirection := Asc\<rparr>))"
proof -
  let ?A = "st\<lparr>sortKey := SortPrice, sortDirection := Asc\<rparr>"
  let ?D = "st\<lparr>sortKey := SortPrice, sortDirection := Desc\<rparr>"
  have va: "\<forall>a\<in>set (filter (matchesFilter ?A) products). validKey gt (sortKey ?A) a"
    and vd: "\<forall>a\<in>set (filter (matchesFilter ?D) products). validKey gt (sortKey ?D) a"
    by (simp_all add: validKey_def)
  show "sorted_wrt (\<lambda>a b. priceValue pf a \<le> priceValue pf b) (processedProducts srt pf gt products ?A)"
    using listing_stable_for_valid_keys(2) [OF srt va, of pf] by (simp add: price_le_iff)
  show "sorted_wrt (\<lambda>a b. priceValue pf b \<le> priceValue pf a) (processedProducts srt pf gt products ?D)"
    using listing_stable_for_valid_keys(2) [OF srt vd, of pf] by (simp add: price_le_iff)
  have pv: "(\<lambda>a. priceValue pf a = w) = (\<lambda>a. sortValue pf gt SortPrice a = JNum w)"
    by (simp add: sortValue_def)
  show "filter (\<lambda>a. priceValue pf a = w) (processedProducts srt pf gt products ?D)
          = filter (\<lambda>a. priceValue pf a = w) (processedProducts srt pf gt products ?A)"
    unfolding pv
    using listing_stable_for_valid_keys(3) [OF srt vd, of pf "JNum w"]
      listing_stable_for_valid_keys(3) [OF srt va, of pf "JNum w"] by simp
qed

text \<open>
  C7. The code does not keep the claim when a date does not parse. The date field of the form
  is not required, and for an empty date \<^verbatim>\<open>getTime\<close> gives \<^verbatim>\<open>NaN\<close>, which the comparator
  compares as equal to everything: unlike the price, which falls back to 0, the date has no
  fallback. The comparator is then not consistent and the engine's sort owes nothing. On V8,
  with the default sort (date, newest first), seven products of which the last four share a
  date and the third has none come out as 2, 4, 5, 7, 1, 3, 6: row 7 stands before row 6, and
  row 1, the oldest, before row 6. Four products with rising dates, the third without a date,
  come out as 4, 2, 1, 3.
\<close>

theorem date_sort_reorders_equal_dates:
  "map pid dateCatalog = [''1'', ''2'', ''3'', ''4'', ''5'', ''6'', ''7'']
   \<and> map date dateCatalog =
       [''2023-10-15'', ''2023-10-20'', [], ''2023-10-20'', ''2023-10-20'', ''2023-10-20'',
        ''2023-10-20'']
   \<and> exampleGetTime [] = None
   \<and> sortKey exampleInventory = SortDate \<and> sortDirection exampleInventory = Desc
   \<and> map pid (processedProducts v8_sort exampleParse exampleGetTime dateCatalog exampleInventory)
       = [''2'', ''4'', ''5'', ''7'', ''1'', ''3'', ''6'']
   \<and> map pid (processedProducts v8_sort exampleParse exampleGetTime fourCatalog exampleInventory)
       = [''4'', ''2'', ''1'', ''3'']"
  by code_simp

section \<open>Pagination\<close>

lemma totalPages_div: "totalPages n = int ((n + 19) div 20)"
proof -
  have "totalPages n = \<lceil>(of_int (int n) :: rat) / of_int 20\<rceil>"
    by (simp add: totalPages_def ITEMS_PER_PAGE_def)
  also have "\<dots> = - (- int n div 20)" by (rule ceiling_divide_eq_div)
  also have "\<dots> = int ((n + 19) div 20)" by (simp add: zdiv_int)
  finally show ?thesis .
qed

lemma slice_page:
  assumes "0 \<le> s"
  shows "slice xs s (s + 20) = take 20 (drop (nat s) xs)"
proof (cases "s < int (length xs)")
  case True
  show ?thesis
  proof (cases "s + 20 \<le> int (length xs)")
    case True
    then show ?thesis using assms by (simp add: slice_def Let_def min_def)
  next
    case False
    then have "nat (int (length xs) - s) = length (drop (nat s) xs)" using assms by simp
    moreover have "length (drop (nat s) xs) \<le> 20" using False assms by simp
    ultimately show ?thesis using False True assms by (simp add: slice_def Let_def min_def)
  qed
next
  case False
  then have "drop (nat s) xs = []" using assms by simp
  then show ?thesis using False assms by (simp add: slice_def Let_def min_def)
qed

lemma processedProducts_page [simp]:
  "processedProducts srt pf gt products (st\<lparr>currentPage := c\<rparr>)
     = processedProducts srt pf gt products st"
proof -
  have "matchesFilter (st\<lparr>currentPage := c\<rparr>) = matchesFilter st"
    by (rule ext) (simp add: matchesFilter_def)
  then show ?thesis by (simp add: processedProducts_def)
qed

lemma paginatedProducts_take_drop:
  assumes "1 \<le> currentPage st"
  shows "paginatedProducts srt pf gt products st =
     take 20 (drop (20 * nat (currentPage st - 1)) (processedProducts srt pf gt products st))"
proof -
  have "nat ((currentPage st - 1) * 20) = 20 * nat (currentPage st - 1)"
    using assms by (simp add: nat_mult_distrib)
  then show ?thesis
    using assms slice_page [of "(currentPage st - 1) * 20"]
    by (simp add: paginatedProducts_def Let_def ITEMS_PER_PAGE_def)
qed

lemma length_processedProducts:
  "conforming_sort srt \<Longrightarrow>
   length (processedProducts srt pf gt products st) = length (filter (matchesFilter st) products)"
  unfolding processedProducts_def conforming_sort_def by (metis size_mset)

text \<open>
  C8. With a sort that keeps the promise of the standard, the listing has as many rows as pass
  the filter, and the page count is the ceiling of that number divided by 20. The page shown is
  the stretch of at most 20 rows of the listing that starts at row \<open>20 * (currentPage - 1)\<close>:
  row \<open>i\<close> of the listing is row \<open>i mod 20\<close> of page \<open>i div 20 + 1\<close>, and every page from 1 to the
  page count is non-empty. \<^verbatim>\<open>goToPage\<close> with a page below 1 or above the page count leaves
  the state as it is, and sets the page otherwise. A new search term, category or status, and
  every call of \<^verbatim>\<open>handleSort\<close>, put the current page back to 1.
\<close>

theorem pagination_no_clamp_and_reset:
  assumes "conforming_sort srt"
  shows "length (processedProducts srt pf gt products st)
           = length (filter (matchesFilter st) products)
   \<and> totalPages n = int ((n + 19) div 20)
   \<and> (of_nat n :: rat) / 20 \<le> of_int (totalPages n)
   \<and> of_int (totalPages n) < (of_nat n :: rat) / 20 + 1
   \<and> (1 \<le> currentPage st \<longrightarrow>
        paginatedProducts srt pf gt products st =
          take 20 (drop (20 * nat (currentPage st - 1))
                     (processedProducts srt pf gt products st)))
   \<and> (\<forall>i<length (processedProducts srt pf gt products st).
        paginatedProducts srt pf gt products (st\<lparr>currentPage := int (i div 20) + 1\<rparr>) ! (i mod 20)
          = processedProducts srt pf gt products st ! i)
   \<and> (1 \<le> currentPage st
        \<and> currentPage st \<le> totalPages (length (processedProducts srt pf gt products st)) \<longrightarrow>
        length (paginatedProducts srt pf gt products st) =
          min 20 (length (processedProducts srt pf gt products st) - 20 * nat (currentPage st - 1))
        \<and> paginatedProducts srt pf gt products st \<noteq> [])
   \<and> (page < 1 \<or> totalPages (length (processedProducts srt pf gt products st)) < page \<longrightarrow>
        goToPage srt pf gt products page st = st)
   \<and> (1 \<le> page \<and> page \<le> totalPages (length (processedProducts srt pf gt products st)) \<longrightarrow>
        goToPage srt pf gt products page st = st\<lparr>currentPage := page\<rparr>)
   \<and> (v \<noteq> searchTerm st \<longrightarrow> currentPage (setSearchTerm v st) = 1)
   \<and> (c \<noteq> selectedCategory st \<longrightarrow> currentPage (selectCategory c st) = 1)
   \<and> (s \<noteq> selectedStatus st \<longrightarrow> currentPage (selectStatus s st) = 1)
   \<and> currentPage (handleSort k d st) = 1"
proof -
  let ?xs = "processedProducts srt pf gt products st"
  have ce: "(of_nat n :: rat) / 20 \<le> of_int (totalPages n)
      \<and> of_int (totalPages n) < (of_nat n :: rat) / 20 + 1"
    unfolding totalPages_def ITEMS_PER_PAGE_def by (simp add: ceiling_correct) linarith
  have td: "1 \<le> currentPage st \<longrightarrow>
        paginatedProducts srt pf gt products st =
          take 20 (drop (20 * nat (currentPage st - 1)) ?xs)"
    by (simp add: paginatedProducts_take_drop)
  have nth: "\<forall>i<length ?xs.
        paginatedProducts srt pf gt products (st\<lparr>currentPage := int (i div 20) + 1\<rparr>) ! (i mod 20)
          = ?xs ! i"
  proof (intro allI impI)
    fix i assume i: "i < length ?xs"
    have "paginatedProducts srt pf gt products (st\<lparr>currentPage := int (i div 20) + 1\<rparr>)
        = take 20 (drop (20 * (i div 20)) ?xs)"
      by (simp add: paginatedProducts_take_drop)
    moreover have "20 * (i div 20) + i mod 20 = i" by simp
    moreover have "20 * (i div 20) \<le> length ?xs" using i by linarith
    ultimately show "paginatedProducts srt pf gt products
          (st\<lparr>currentPage := int (i div 20) + 1\<rparr>) ! (i mod 20) = ?xs ! i"
      by simp
  qed
  have ne: "1 \<le> currentPage st \<and> currentPage st \<le> totalPages (length ?xs) \<longrightarrow>
        length (paginatedProducts srt pf gt products st) =
          min 20 (length ?xs - 20 * nat (currentPage st - 1))
        \<and> paginatedProducts srt pf gt products st \<noteq> []"
  proof (intro impI, elim conjE)
    assume p: "1 \<le> currentPage st" "currentPage st \<le> totalPages (length ?xs)"
    have "nat (currentPage st) \<le> (length ?xs + 19) div 20"
      using p by (simp add: totalPages_div)
    then have "20 * nat (currentPage st - 1) < length ?xs" using p by (simp add: nat_diff_distrib)
    then show "length (paginatedProducts srt pf gt products st) =
          min 20 (length ?xs - 20 * nat (currentPage st - 1))
        \<and> paginatedProducts srt pf gt products st \<noteq> []"
      using p by (simp add: paginatedProducts_take_drop)
  qed
  have g: "(page < 1 \<or> totalPages (length ?xs) < page \<longrightarrow>
        goToPage srt pf gt products page st = st)
   \<and> (1 \<le> page \<and> page \<le> totalPages (length ?xs) \<longrightarrow>
        goToPage srt pf gt products page st = st\<lparr>currentPage := page\<rparr>)"
    by (auto simp: goToPage_def)
  have r: "(v \<noteq> searchTerm st \<longrightarrow> currentPage (setSearchTerm v st) = 1)
   \<and> (c \<noteq> selectedCategory st \<longrightarrow> currentPage (selectCategory c st) = 1)
   \<and> (s \<noteq> selectedStatus st \<longrightarrow> currentPage (selectStatus s st) = 1)
   \<and> currentPage (handleSort k d st) = 1"
    by (simp add: setSearchTerm_def selectCategory_def selectStatus_def handleSort_def
        pageResetEffect_def)
  show ?thesis
    using ce td nth ne g r totalPages_div [of n] length_processedProducts [OF assms, of pf gt products st]
    by blast
qed

theorem pagination_no_clamp_and_reset_witness:
  "conforming_sort (sort_cmp :: (product \<Rightarrow> product \<Rightarrow> int) \<Rightarrow> product list \<Rightarrow> product list)
   \<and> length (processedProducts sort_cmp exampleParse exampleGetTime (numberedCatalog 45)
        exampleInventory) = 45
   \<and> totalPages 45 = 3
   \<and> map pid (paginatedProducts sort_cmp exampleParse exampleGetTime (numberedCatalog 45)
        (exampleInventory\<lparr>currentPage := 3\<rparr>)) = [''41'', ''42'', ''43'', ''44'', ''45'']
   \<and> goToPage sort_cmp exampleParse exampleGetTime (numberedCatalog 45) 4
        (exampleInventory\<lparr>currentPage := 3\<rparr>) = exampleInventory\<lparr>currentPage := 3\<rparr>
   \<and> goToPage sort_cmp exampleParse exampleGetTime (numberedCatalog 45) 2
        (exampleInventory\<lparr>currentPage := 3\<rparr>) = exampleInventory\<lparr>currentPage := 2\<rparr>
   \<and> ''usb'' \<noteq> searchTerm (exampleInventory\<lparr>currentPage := 3\<rparr>)
   \<and> currentPage (setSearchTerm ''usb'' (exampleInventory\<lparr>currentPage := 3\<rparr>)) = 1"
proof -
  let ?st = "exampleInventory\<lparr>currentPage := 3\<rparr>"
  have c: "conforming_sort (sort_cmp :: (product \<Rightarrow> product \<Rightarrow> int) \<Rightarrow> product list \<Rightarrow> product list)"
    by (rule conforming_sort_cmp)
  note p = pagination_no_clamp_and_reset [OF c, of exampleParse exampleGetTime "numberedCatalog 45"]
  have f: "length (filter (matchesFilter exampleInventory) (numberedCatalog 45)) = 45"
    by code_simp
  have l: "length (processedProducts sort_cmp exampleParse exampleGetTime (numberedCatalog 45)
        exampleInventory) = 45"
    using p [of exampleInventory] f by simp
  have l3: "length (processedProducts sort_cmp exampleParse exampleGetTime (numberedCatalog 45)
        ?st) = 45"
    using l by simp
  have t: "totalPages 45 = 3" using p [of exampleInventory 45] by simp
  have pg: "map pid (paginatedProducts sort_cmp exampleParse exampleGetTime (numberedCatalog 45)
        ?st) = [''41'', ''42'', ''43'', ''44'', ''45'']"
    by code_simp
  have g4: "goToPage sort_cmp exampleParse exampleGetTime (numberedCatalog 45) 4 ?st = ?st"
    using p [of ?st _ 4] unfolding l3 t by simp
  have g2: "goToPage sort_cmp exampleParse exampleGetTime (numberedCatalog 45) 2 ?st
      = exampleInventory\<lparr>currentPage := 2\<rparr>"
    using p [of ?st _ 2] unfolding l3 t by simp
  have h2: "''usb'' \<noteq> searchTerm ?st" by (simp add: exampleInventory_def)
  have b: "currentPage (setSearchTerm ''usb'' ?st) = 1"
    using p [of ?st _ _ "''usb''"] h2 by blast
  show ?thesis using c l t pg g4 g2 h2 b by blast
qed

section \<open>SKU uniqueness\<close>

lemma checkSkuUnique_iff:
  "checkSkuUnique (Some ps) editId s \<longleftrightarrow>
     (\<forall>p\<in>set ps. toLowerCase (sku p) = toLowerCase s \<longrightarrow> Some (pid p) = editId)"
  by (auto simp: checkSkuUnique_def list_ex_iff)

lemma submitProduct_duplicate:
  assumes "trim (form_sku (form st)) \<noteq> []"
    and "\<exists>p\<in>set (app_products app).
            toLowerCase (sku p) = toLowerCase (trim (form_sku (form st))) \<and> Some (pid p) \<noteq> editId"
  shows "submitProduct pf tf ns g u nid editId (st, app) =
        (None,
         (if form_name (form st) = [] \<or> form_price (form st) = [] then st
          else if priceError st \<noteq> None \<or> pf (form_price (form st)) = None
            then st\<lparr>priceError := Some ''Insert a valid number''\<rparr>
          else if form_qty (form st) < 1
            then st\<lparr>qtyError := Some ''At least 1 unit is required''\<rparr>
          else st\<lparr>skuError := Some ''This SKU is already in use. Please enter a unique SKU.''\<rparr>),
         app)"
proof -
  have "\<not> checkSkuUnique (Some (app_products app)) editId (trim (form_sku (form st)))"
    using assms(2) unfolding checkSkuUnique_iff by blast
  then show ?thesis
    using assms(1) by (simp add: submitProduct_def handleSubmit_def Let_def)
qed

lemma submitProduct_unique:
  assumes "form_name (form st) \<noteq> []" "form_price (form st) \<noteq> []" "priceError st = None"
    and "pf (form_price (form st)) = Some v" "1 \<le> form_qty (form st)"
    and "trim (form_sku (form st)) = [] \<or>
         (\<forall>p\<in>set (app_products app).
            toLowerCase (sku p) = toLowerCase (trim (form_sku (form st))) \<longrightarrow> Some (pid p) = editId)"
  shows "submitProduct pf tf ns g u nid editId (st, app) =
          (let pd = \<lparr>pd_id = (case editId of Some i \<Rightarrow> if i \<noteq> [] then Some i else None
                                            | None \<Rightarrow> None),
                     pd_name = form_name (form st),
                     pd_sku = (if trim (form_sku (form st)) = [] then g
                               else trim (form_sku (form st))),
                     pd_category = form_category (form st),
                     pd_price = tf v,
                     pd_qty = form_qty (form st),
                     pd_description = form_description (form st),
                     pd_imgId = form_imgId (form st),
                     pd_customImage = form_customImage (form st),
                     pd_date = form_date (form st)\<rparr>
           in (Some pd, st, handleSaveProduct ns u nid pd app))"
proof -
  have "trim (form_sku (form st)) = [] \<or>
      checkSkuUnique (Some (app_products app)) editId (trim (form_sku (form st)))"
    using assms(6) unfolding checkSkuUnique_iff by blast
  then show ?thesis
    using assms(1-5) by (auto simp: submitProduct_def handleSubmit_def Let_def)
qed

text \<open>
  C9, as stated, fails: a new product with the SKU \<^verbatim>\<open>abc-1\<close>, while \<^verbatim>\<open>ABC-1\<close> exists, and
  with quantity 0 is stopped by the quantity check, which comes first. The form shows the
  quantity message and no SKU message: the duplicate is not reported.
\<close>

theorem duplicate_sku_counterexample:
  "map sku (app_products skuApp) = [''ABC-1'']
   \<and> trim (form_sku (form (exampleForm ''abc-1'' 0))) = ''abc-1''
   \<and> toLowerCase ''abc-1'' = toLowerCase ''ABC-1''
   \<and> submitProduct exampleParse exampleToFixed exampleToString ''SKU-1234'' ''John Doe''
        ''1700000000000'' None (exampleForm ''abc-1'' 0, skuApp)
      = (None, (exampleForm ''abc-1'' 0)\<lparr>qtyError := Some ''At least 1 unit is required''\<rparr>, skuApp)
   \<and> skuError (fst (snd (submitProduct exampleParse exampleToFixed exampleToString ''SKU-1234''
        ''John Doe'' ''1700000000000'' None (exampleForm ''abc-1'' 0, skuApp)))) = None"
  by code_simp

text \<open>
  C9, amended. Let the trimmed SKU of the form be non-empty and equal, ignoring case, to the SKU
  of a catalog product other than the one being edited. Then the submission saves nothing and
  leaves the application state (the catalog with it) as it is, and the form state tells which
  check stopped it, the first of these that applies: name or price empty (no message), price
  not a number (the price message), quantity below 1 (the quantity message), and only
  otherwise the SKU message \<^verbatim>\<open>This SKU is already in use. Please enter a unique SKU.\<close>
  A form that passes the three earlier checks and whose trimmed SKU is empty or is matched by
  no product other than the edited one is saved with the data of the form, so a product keeps
  its own SKU. Creating \<^verbatim>\<open>abc-1\<close> with quantity 3 while \<^verbatim>\<open>ABC-1\<close> exists gives the SKU
  message.
\<close>

theorem duplicate_sku_rejected:
  "(trim (form_sku (form st)) \<noteq> []
      \<and> (\<exists>p\<in>set (app_products app).
            toLowerCase (sku p) = toLowerCase (trim (form_sku (form st))) \<and> Some (pid p) \<noteq> editId)
     \<longrightarrow> submitProduct pf tf ns g u nid editId (st, app) =
        (None,
         (if form_name (form st) = [] \<or> form_price (form st) = [] then st
          else if priceError st \<noteq> None \<or> pf (form_price (form st)) = None
            then st\<lparr>priceError := Some ''Insert a valid number''\<rparr>
          else if form_qty (form st) < 1
            then st\<lparr>qtyError := Some ''At least 1 unit is required''\<rparr>
          else st\<lparr>skuError := Some ''This SKU is already in use. Please enter a unique SKU.''\<rparr>),
         app))
   \<and> (form_name (form st) \<noteq> [] \<and> form_price (form st) \<noteq> [] \<and> priceError st = None
      \<and> pf (form_price (form st)) = Some v \<and> 1 \<le> form_qty (form st)
      \<and> (trim (form_sku (form st)) = [] \<or>
         (\<forall>p\<in>set (app_products app).
            toLowerCase (sku p) = toLowerCase (trim (form_sku (form st))) \<longrightarrow> Some (pid p) = editId))
     \<longrightarrow> submitProduct pf tf ns g u nid editId (st, app) =
          (let pd = \<lparr>pd_id = (case editId of Some i \<Rightarrow> if i \<noteq> [] then Some i else None
                                            | None \<Rightarrow> None),
                     pd_name = form_name (form st),
                     pd_sku = (if trim (form_sku (form st)) = [] then g
                               else trim (form_sku (form st))),
                     pd_category = form_category (form st),
                     pd_price = tf v,
                     pd_qty = form_qty (form st),
                     pd_description = form_description (form st),
                     pd_imgId = form_imgId (form st),
                     pd_customImage = form_customImage (form st),
                     pd_date = form_date (form st)\<rparr>
           in (Some pd, st, handleSaveProduct ns u nid pd app)))
   \<and> submitProduct exampleParse exampleToFixed ns g u nid None (exampleForm ''abc-1'' 3, skuApp)
       = (None,
          (exampleForm ''abc-1'' 3)
            \<lparr>skuError := Some ''This SKU is already in use. Please enter a unique SKU.''\<rparr>,
          skuApp)"
proof -
  have t: "trim (form_sku (form (exampleForm ''abc-1'' 3))) = ''abc-1''" by code_simp
  have l: "toLowerCase ''ABC-1'' = toLowerCase ''abc-1''" by code_simp
  have h1: "trim (form_sku (form (exampleForm ''abc-1'' 3))) \<noteq> []" using t by simp
  have h2: "\<exists>p\<in>set (app_products skuApp).
      toLowerCase (sku p) = toLowerCase (trim (form_sku (form (exampleForm ''abc-1'' 3))))
      \<and> Some (pid p) \<noteq> None"
    unfolding t using l by (simp add: skuApp_def)
  have e: "exampleParse (form_price (form (exampleForm ''abc-1'' 3))) = Some 5" by code_simp
  have c: "submitProduct exampleParse exampleToFixed ns g u nid None (exampleForm ''abc-1'' 3, skuApp)
       = (None,
          (exampleForm ''abc-1'' 3)
            \<lparr>skuError := Some ''This SKU is already in use. Please enter a unique SKU.''\<rparr>,
          skuApp)"
    unfolding submitProduct_duplicate [OF h1 h2] using e by (simp add: exampleForm_def)
  show ?thesis
    using submitProduct_duplicate [of st app editId pf tf ns g u nid]
      submitProduct_unique [of st pf v app editId tf ns g u nid] c
    by blast
qed

theorem duplicate_sku_rejected_witness:
  "trim (form_sku (form (exampleForm ''abc-1'' 3))) = ''abc-1''
   \<and> (\<exists>p\<in>set (app_products skuApp).
         toLowerCase (sku p) = toLowerCase ''abc-1'' \<and> Some (pid p) \<noteq> (None :: string option))
   \<and> submitProduct exampleParse exampleToFixed exampleToString ''SKU-1234'' ''John Doe''
        ''1700000000000'' None (exampleForm ''abc-1'' 3, skuApp)
       = (None,
          (exampleForm ''abc-1'' 3)
            \<lparr>skuError := Some ''This SKU is already in use. Please enter a unique SKU.''\<rparr>,
          skuApp)
   \<and> exampleParse (form_price (form (exampleForm ''ABC-1'' 3))) = Some 5
   \<and> list_all (\<lambda>p. toLowerCase (sku p) = toLowerCase ''ABC-1'' \<and> pid p = ''7'')
        (app_products skuApp)
   \<and> fst (submitProduct exampleParse exampleToFixed exampleToString ''SKU-1234'' ''John Doe''
        ''1700000000000'' (Some ''7'') (exampleForm ''ABC-1'' 3, skuApp))
       = Some \<lparr>pd_id = Some ''7'', pd_name = ''Widget'', pd_sku = ''ABC-1'',
               pd_category = ''Electronics'', pd_price = exampleToFixed 5, pd_qty = 3,
               pd_description = [], pd_imgId = ''10'', pd_customImage = [],
               pd_date = ''2023-10-15''\<rparr>
   \<and> map sku (app_products (snd (snd (submitProduct exampleParse exampleToFixed exampleToString
        ''SKU-1234'' ''John Doe'' ''1700000000000'' (Some ''7'') (exampleForm ''ABC-1'' 3, skuApp)))))
       = [''ABC-1'']
   \<and> map qty (app_products (snd (snd (submitProduct exampleParse exampleToFixed exampleToString
        ''SKU-1234'' ''John Doe'' ''1700000000000'' (Some ''7'') (exampleForm ''ABC-1'' 3, skuApp)))))
       = [3]
   \<and> toLowerCase (''CAF'' @ [char_of (201 :: nat)]) = ''caf'' @ [char_of (233 :: nat)]"
proof -
  have t: "trim (form_sku (form (exampleForm ''abc-1'' 3))) = ''abc-1''" by code_simp
  have h2: "\<exists>p\<in>set (app_products skuApp).
         toLowerCase (sku p) = toLowerCase ''abc-1'' \<and> Some (pid p) \<noteq> (None :: string option)"
    by code_simp
  have d: "submitProduct exampleParse exampleToFixed exampleToString ''SKU-1234'' ''John Doe''
        ''1700000000000'' None (exampleForm ''abc-1'' 3, skuApp)
       = (None,
          (exampleForm ''abc-1'' 3)
            \<lparr>skuError := Some ''This SKU is already in use. Please enter a unique SKU.''\<rparr>,
          skuApp)"
    using duplicate_sku_rejected by blast
  have e: "exampleParse (form_price (form (exampleForm ''ABC-1'' 3))) = Some 5" by code_simp
  have t2: "trim (form_sku (form (exampleForm ''ABC-1'' 3))) = ''ABC-1''" by code_simp
  have a: "list_all (\<lambda>p. toLowerCase (sku p) = toLowerCase ''ABC-1'' \<and> pid p = ''7'')
        (app_products skuApp)"
    by code_simp
  then have u: "\<forall>p\<in>set (app_products skuApp).
      toLowerCase (sku p) = toLowerCase (trim (form_sku (form (exampleForm ''ABC-1'' 3))))
        \<longrightarrow> Some (pid p) = Some ''7''"
    unfolding t2 by (simp add: list_all_iff)
  have f: "form_name (form (exampleForm ''ABC-1'' 3)) \<noteq> []
      \<and> form_price (form (exampleForm ''ABC-1'' 3)) \<noteq> []
      \<and> priceError (exampleForm ''ABC-1'' 3) = None
      \<and> 1 \<le> form_qty (form (exampleForm ''ABC-1'' 3))"
    by (simp add: exampleForm_def)
  have s: "submitProduct exampleParse exampleToFixed exampleToString ''SKU-1234'' ''John Doe''
        ''1700000000000'' (Some ''7'') (exampleForm ''ABC-1'' 3, skuApp) =
      (let pd = \<lparr>pd_id = (case Some ''7'' of Some i \<Rightarrow> if i \<noteq> [] then Some i else None
                                            | None \<Rightarrow> None),
                     pd_name = form_name (form (exampleForm ''ABC-1'' 3)),
                     pd_sku = (if trim (form_sku (form (exampleForm ''ABC-1'' 3))) = []
                               then ''SKU-1234''
                               else trim (form_sku (form (exampleForm ''ABC-1'' 3)))),
                     pd_category = form_category (form (exampleForm ''ABC-1'' 3)),
                     pd_price = exampleToFixed 5,
                     pd_qty = form_qty (form (exampleForm ''ABC-1'' 3)),
                     pd_description = form_description (form (exampleForm ''ABC-1'' 3)),
                     pd_imgId = form_imgId (form (exampleForm ''ABC-1'' 3)),
                     pd_customImage = form_customImage (form (exampleForm ''ABC-1'' 3)),
                     pd_date = form_date (form (exampleForm ''ABC-1'' 3))\<rparr>
           in (Some pd, exampleForm ''ABC-1'' 3,
               handleSaveProduct exampleToString ''John Doe'' ''1700000000000'' pd skuApp))"
    using duplicate_sku_rejected [of "exampleForm ''ABC-1'' 3" skuApp "Some ''7''" exampleParse
        exampleToFixed exampleToString "''SKU-1234''" "''John Doe''" "''1700000000000''" 5]
      e u f by blast
  have r1: "fst (submitProduct exampleParse exampleToFixed exampleToString ''SKU-1234'' ''John Doe''
        ''1700000000000'' (Some ''7'') (exampleForm ''ABC-1'' 3, skuApp))
       = Some \<lparr>pd_id = Some ''7'', pd_name = ''Widget'', pd_sku = ''ABC-1'',
               pd_category = ''Electronics'', pd_price = exampleToFixed 5, pd_qty = 3,
               pd_description = [], pd_imgId = ''10'', pd_customImage = [],
               pd_date = ''2023-10-15''\<rparr>"
    unfolding s t2 by (simp add: Let_def exampleForm_def)
  have r2: "map sku (app_products (snd (snd (submitProduct exampleParse exampleToFixed
        exampleToString ''SKU-1234'' ''John Doe'' ''1700000000000'' (Some ''7'')
        (exampleForm ''ABC-1'' 3, skuApp))))) = [''ABC-1'']"
    unfolding s t2
    by (simp add: Let_def exampleForm_def handleSaveProduct_def skuApp_def productWithStatus_def
        exampleProduct_def)
  have r3: "map qty (app_products (snd (snd (submitProduct exampleParse exampleToFixed
        exampleToString ''SKU-1234'' ''John Doe'' ''1700000000000'' (Some ''7'')
        (exampleForm ''ABC-1'' 3, skuApp))))) = [3]"
    unfolding s t2
    by (simp add: Let_def exampleForm_def handleSaveProduct_def skuApp_def productWithStatus_def
        exampleProduct_def)
  have c: "toLowerCase (''CAF'' @ [char_of (201 :: nat)]) = ''caf'' @ [char_of (233 :: nat)]"
    by code_simp
  show ?thesis using t h2 d e a r1 r2 r3 c by blast
qed

end
